theory Spec2Isabelle
  imports Complex_Main
begin

section \<open>Python values, exceptions and text helpers\<close>

text \<open>
  The quiz solver of \<^verbatim>\<open>app.py\<close> is embedded as pure functions over an explicit world.
  Exceptions are values: a call that may raise returns \<open>exn + 'a\<close>, with \<open>Inl\<close> the
  exception. The solver tells three classes of exception apart (the Playwright timeout,
  the \<^verbatim>\<open>requests\<close> exception family, and everything else that \<^verbatim>\<open>except Exception\<close>
  catches).
\<close>

datatype exn = PWTimeoutError | RequestException | OtherException

text \<open>
  Values that travel through the solver untyped (a parsed JSON document, the answer, the
  current URL). JSON \<^verbatim>\<open>null\<close> and Python \<^verbatim>\<open>None\<close> are the same value \<open>PNone\<close>, as they are
  in Python. A dict is the list of its items, each key occurring once.

  A float is a double: a finite number (\<open>Finite 0\<close> is \<^verbatim>\<open>0.0\<close>), the negative zero, an
  infinity or a NaN. No arithmetic on floats is defined here: the one operation the
  source uses, the addition of two floats, is the library's (see \<open>float_add\<close> below), with
  its rounding, its overflow and its NaN.
\<close>

datatype pyfloat = Finite real | NegZero | PosInf | NegInf | NaN

datatype pyval =
    PNone
  | PBool bool
  | PInt int
  | PFloat pyfloat
  | PStr string
  | PList "pyval list"
  | PDict "(string \<times> pyval) list"

text \<open>Python truthiness, as used by \<^verbatim>\<open>while current_url\<close> and \<^verbatim>\<open>if next_url\<close>.\<close>

fun py_truthy :: "pyval \<Rightarrow> bool" where
  "py_truthy PNone = False"
| "py_truthy (PBool b) = b"
| "py_truthy (PInt i) = (i \<noteq> 0)"
| "py_truthy (PFloat x) = (x \<noteq> Finite 0 \<and> x \<noteq> NegZero)"
| "py_truthy (PStr s) = (s \<noteq> [])"
| "py_truthy (PList xs) = (xs \<noteq> [])"
| "py_truthy (PDict d) = (d \<noteq> [])"

text \<open>\<^verbatim>\<open>d.get(k)\<close> on a value already known to be a dict.\<close>

definition dict_get :: "(string \<times> pyval) list \<Rightarrow> string \<Rightarrow> pyval" where
  "dict_get d k = (case map_of d k of None \<Rightarrow> PNone | Some v \<Rightarrow> v)"

text \<open>
  A character is a code point below 256, and a text a list of them (a \<^verbatim>\<open>str\<close> over
  Latin-1; \<open>char\<close> has no other code points). On these, \<^verbatim>\<open>str.lower\<close> maps the 26
  capital letters and the capital letters \<open>0xC0\<close> to \<open>0xDE\<close> (but not the multiplication
  sign \<open>0xD7\<close>) to the character 32 places further on, and the whitespace of
  \<^verbatim>\<open>str.strip\<close> and of the regular expressions' \<^verbatim>\<open>\s\<close> consists of the codes 9 to 13, 28
  to 32, \<open>0x85\<close> and \<open>0xA0\<close>. The digits of \<^verbatim>\<open>\d\<close> are \<^verbatim>\<open>0\<close> to \<^verbatim>\<open>9\<close>.
\<close>

definition lower_char :: "char \<Rightarrow> char" where
  "lower_char c =
     (case map_of
             (zip (''ABCDEFGHIJKLMNOPQRSTUVWXYZ'' @
                   [CHR 0xC0, CHR 0xC1, CHR 0xC2, CHR 0xC3, CHR 0xC4, CHR 0xC5, CHR 0xC6, CHR 0xC7,
                    CHR 0xC8, CHR 0xC9, CHR 0xCA, CHR 0xCB, CHR 0xCC, CHR 0xCD, CHR 0xCE, CHR 0xCF,
                    CHR 0xD0, CHR 0xD1, CHR 0xD2, CHR 0xD3, CHR 0xD4, CHR 0xD5, CHR 0xD6,
                    CHR 0xD8, CHR 0xD9, CHR 0xDA, CHR 0xDB, CHR 0xDC, CHR 0xDD, CHR 0xDE])
                  (''abcdefghijklmnopqrstuvwxyz'' @
                   [CHR 0xE0, CHR 0xE1, CHR 0xE2, CHR 0xE3, CHR 0xE4, CHR 0xE5, CHR 0xE6, CHR 0xE7,
                    CHR 0xE8, CHR 0xE9, CHR 0xEA, CHR 0xEB, CHR 0xEC, CHR 0xED, CHR 0xEE, CHR 0xEF,
                    CHR 0xF0, CHR 0xF1, CHR 0xF2, CHR 0xF3, CHR 0xF4, CHR 0xF5, CHR 0xF6,
                    CHR 0xF8, CHR 0xF9, CHR 0xFA, CHR 0xFB, CHR 0xFC, CHR 0xFD, CHR 0xFE])) c of
        Some d \<Rightarrow> d
      | None \<Rightarrow> c)"

definition py_lower :: "string \<Rightarrow> string" where
  "py_lower s = map lower_char s"

definition is_space :: "char \<Rightarrow> bool" where
  "is_space c =
     (c \<in> set [CHR '' '', CHR 0x09, CHR 0x0A, CHR 0x0B, CHR 0x0C, CHR 0x0D,
                CHR 0x1C, CHR 0x1D, CHR 0x1E, CHR 0x1F, CHR 0x85, CHR 0xA0])"

definition py_strip :: "string \<Rightarrow> string" where
  "py_strip s = rev (dropWhile is_space (rev (dropWhile is_space s)))"

definition endswith :: "string \<Rightarrow> string \<Rightarrow> bool" where
  "endswith s suf = (length suf \<le> length s \<and> drop (length s - length suf) s = suf)"

text \<open>\<^verbatim>\<open>sub in s\<close> for strings.\<close>

fun contains :: "string \<Rightarrow> string \<Rightarrow> bool" where
  "contains [] sub = (sub = [])"
| "contains (c # cs) sub = (take (length sub) (c # cs) = sub \<or> contains cs sub)"

text \<open>\<^verbatim>\<open>xs.index(x)\<close>, with the \<^verbatim>\<open>ValueError\<close> of a missing element as \<open>None\<close>.\<close>

fun index_of :: "'a \<Rightarrow> 'a list \<Rightarrow> nat option" where
  "index_of x [] = None"
| "index_of x (y # ys) =
     (if x = y then Some 0 else (case index_of x ys of None \<Rightarrow> None | Some i \<Rightarrow> Some (Suc i)))"

definition digit_of :: "char \<Rightarrow> nat option" where
  "digit_of c = map_of (zip ''0123456789'' [0, 1, 2, 3, 4, 5, 6, 7, 8, 9]) c"

definition is_digit :: "char \<Rightarrow> bool" where
  "is_digit c = (digit_of c \<noteq> None)"

section \<open>The regular expressions of the source\<close>

text \<open>
  The class \<^verbatim>\<open>[^\s'\"<>]\<close> of the two URL patterns.
\<close>

definition is_url_char :: "char \<Rightarrow> bool" where
  "is_url_char c = (\<not> is_space c \<and> c \<notin> set [CHR 0x27, CHR 0x22, CHR ''<'', CHR ''>''])"

text \<open>
  \<^verbatim>\<open>https?://[^\s'\"<>]+\<close> anchored at the head of the text: the scheme, then the longest
  non-empty run of URL characters.
\<close>

definition url_at :: "string \<Rightarrow> string option" where
  "url_at s =
     (let p = (if take 8 s = ''https://'' then 8 else if take 7 s = ''http://'' then 7 else 0);
          r = takeWhile is_url_char (drop p s)
      in if p = 0 \<or> r = [] then None else Some (take p s @ r))"

text \<open>\<^verbatim>\<open>re.search(r"https?://[^\s'\"<>]+", text)\<close>: the leftmost match.\<close>

fun search_url :: "string \<Rightarrow> string option" where
  "search_url [] = None"
| "search_url (c # cs) =
     (case url_at (c # cs) of Some m \<Rightarrow> Some m | None \<Rightarrow> search_url cs)"

text \<open>
  \<^verbatim>\<open>https?://[^\s'\"<>]*submit[^\s'\"<>]*\<close> with \<^verbatim>\<open>re.IGNORECASE\<close>, anchored: the word
  \<^verbatim>\<open>submit\<close> consists of URL characters, so the pattern matches exactly when the run of
  URL characters after the scheme contains it, and then the match is the whole run.
\<close>

definition submit_url_at :: "string \<Rightarrow> string option" where
  "submit_url_at s =
     (let l = py_lower s;
          p = (if take 8 l = ''https://'' then 8 else if take 7 l = ''http://'' then 7 else 0);
          r = takeWhile is_url_char (drop p s)
      in if p = 0 \<or> \<not> contains (py_lower r) ''submit'' then None else Some (take p s @ r))"

fun search_submit_url :: "string \<Rightarrow> string option" where
  "search_submit_url [] = None"
| "search_submit_url (c # cs) =
     (case submit_url_at (c # cs) of Some m \<Rightarrow> Some m | None \<Rightarrow> search_submit_url cs)"

text \<open>
  \<^verbatim>\<open>([-+]?\d+\.\d+|[-+]?\d+)\<close> anchored: an optional sign, the longest run of digits, and
  the fraction when a dot and at least one digit follow.
\<close>

definition number_at :: "string \<Rightarrow> string option" where
  "number_at s =
     (let sign = (case s of [] \<Rightarrow> [] | c # _ \<Rightarrow> if c = CHR ''-'' \<or> c = CHR ''+'' then [c] else []);
          rest = drop (length sign) s;
          ds = takeWhile is_digit rest;
          fs = (case drop (length ds) rest of
                  [] \<Rightarrow> []
                | c # more \<Rightarrow> if c = CHR ''.'' then takeWhile is_digit more else [])
      in if ds = [] then None
         else if fs = [] then Some (sign @ ds)
         else Some (sign @ ds @ ''.'' @ fs))"

fun search_number :: "string \<Rightarrow> string option" where
  "search_number [] = None"
| "search_number (c # cs) =
     (case number_at (c # cs) of Some m \<Rightarrow> Some m | None \<Rightarrow> search_number cs)"

text \<open>
  \<^verbatim>\<open>re.fullmatch(r"[-+]?\d+", v)\<close>, and \<^verbatim>\<open>int(v)\<close> on such a token. \<^verbatim>\<open>int\<close> raises
  \<^verbatim>\<open>ValueError\<close> (here \<open>None\<close>) when the token has more digits, leading zeros included and the
  sign excluded, than the interpreter's limit \<^verbatim>\<open>sys.get_int_max_str_digits()\<close> allows; a
  limit of 0 means that there is none.
\<close>

definition unsigned :: "string \<Rightarrow> string" where
  "unsigned v = (case v of [] \<Rightarrow> [] | c # cs \<Rightarrow> if c = CHR ''-'' \<or> c = CHR ''+'' then cs else v)"

definition int_token :: "string \<Rightarrow> bool" where
  "int_token v = (unsigned v \<noteq> [] \<and> list_all is_digit (unsigned v))"

definition digits_value :: "string \<Rightarrow> nat" where
  "digits_value ds = foldl (\<lambda>a c. 10 * a + (case digit_of c of None \<Rightarrow> 0 | Some d \<Rightarrow> d)) 0 ds"

definition py_int :: "nat \<Rightarrow> string \<Rightarrow> int option" where
  "py_int max_str_digits v =
     (if 0 < max_str_digits \<and> max_str_digits < length (unsigned v) then None
      else (case v of
              [] \<Rightarrow> None
            | c # _ \<Rightarrow> if c = CHR ''-'' then Some (- int (digits_value (unsigned v)))
                       else Some (int (digits_value (unsigned v)))))"

section \<open>Libraries and the world\<close>

text \<open>
  The functions of libraries that the source calls and the repository does not contain
  are parameters of the model: \<^verbatim>\<open>urlparse(url).hostname\<close> (which may raise),
  \<^verbatim>\<open>urljoin\<close>, \<^verbatim>\<open>json.loads\<close>, \<^verbatim>\<open>base64.b64decode(...).decode("utf-8")\<close> and \<^verbatim>\<open>float\<close>
  (\<open>None\<close> when they raise), the addition of two floats, the interpreter's limit on the
  digits of an integer literal, and \<^verbatim>\<open>pdfplumber.open\<close>. The latter raises or yields a
  document, whose \<^verbatim>\<open>pages\<close> in turn raise or are a list of pages (the list is built at the
  first access and kept). A page answers \<^verbatim>\<open>extract_table()\<close> with an exception, with
  \<^verbatim>\<open>None\<close>, or with a table of cells, each a string or \<^verbatim>\<open>None\<close>.
\<close>

type_synonym table = "string option list list"

type_synonym pdf_page = "exn + table option"

type_synonym pdf_doc = "exn + pdf_page list"

record lib =
  urlparse_hostname :: "string \<Rightarrow> exn + string option"
  urljoin :: "string \<Rightarrow> string \<Rightarrow> string option"
  json_loads :: "string \<Rightarrow> pyval option"
  b64decode_utf8 :: "string \<Rightarrow> string option"
  py_float :: "string \<Rightarrow> pyfloat option"
  float_add :: "pyfloat \<Rightarrow> pyfloat \<Rightarrow> pyfloat"
  int_max_str_digits :: nat
  pdf_open :: "string \<Rightarrow> exn + pdf_doc"

text \<open>
  \<^verbatim>\<open>Response.raise_for_status\<close> of \<^verbatim>\<open>requests\<close> raises \<^verbatim>\<open>HTTPError\<close>, a \<^verbatim>\<open>RequestException\<close>,
  on the client and server error codes, and on no other status.
\<close>

definition raise_for_status :: "nat \<Rightarrow> bool" where
  "raise_for_status status = (400 \<le> status \<and> status < 600)"

text \<open>What the network answers to one request: no response at all, or a status and a body.\<close>

datatype http_result = ConnectionFailed | Response nat string

text \<open>
  A rendered page is live: its content may change between two queries, so the page
  answers each query of the per-attempt sequence separately, in program order. A query
  may raise. \<open>q_pre\<close> is \<^verbatim>\<open>page.query_selector("pre")\<close> followed by the element's
  \<^verbatim>\<open>inner_text()\<close>; an anchor list is \<^verbatim>\<open>page.query_selector_all("a[href]")\<close> with each
  element's \<^verbatim>\<open>get_attribute("href")\<close>; a body is \<^verbatim>\<open>page.inner_text("body")\<close>.
\<close>

record live_page =
  page_url :: string
  q_pre :: "exn + (exn + string) option"
  q_anchors_submit :: "exn + (exn + string option) list"
  q_body_submit :: "exn + string"
  q_anchors_answer :: "exn + (exn + string option) list"
  q_body_answer :: "exn + string"
  q_body_fallback :: "exn + string"

section \<open>Helpers of the source\<close>

definition is_localhost_url :: "lib \<Rightarrow> string \<Rightarrow> bool" where
  "is_localhost_url L url =
     (case urlparse_hostname L url of
        Inl e \<Rightarrow> False
      | Inr p \<Rightarrow>
          (let hostname = py_lower (case p of None \<Rightarrow> [] | Some h \<Rightarrow> h)
           in if hostname \<in> set [''localhost'', ''127.0.0.1'', ''::1''] then True
              else if endswith hostname ''.local'' then True
              else False))"

text \<open>
  The anchor loop of \<^verbatim>\<open>find_submit_url_from_page\<close>; it is not inside a \<^verbatim>\<open>try\<close>, so an
  exception of \<^verbatim>\<open>get_attribute\<close> or of \<^verbatim>\<open>urljoin\<close> leaves the function.
\<close>

fun scan_submit_anchors ::
  "lib \<Rightarrow> string \<Rightarrow> (exn + string option) list \<Rightarrow> exn + string option" where
  "scan_submit_anchors L base_url [] = Inr None"
| "scan_submit_anchors L base_url (a # anchors) =
     (case a of
        Inl e \<Rightarrow> Inl e
      | Inr None \<Rightarrow> scan_submit_anchors L base_url anchors
      | Inr (Some href) \<Rightarrow>
          if href \<noteq> [] \<and> contains (py_lower href) ''submit''
          then (case urljoin L base_url href of
                  None \<Rightarrow> Inl OtherException
                | Some u \<Rightarrow> Inr (Some u))
          else scan_submit_anchors L base_url anchors)"

definition find_submit_url_from_page :: "lib \<Rightarrow> live_page \<Rightarrow> string \<Rightarrow> exn + string option" where
  "find_submit_url_from_page L page base_url =
     (case q_anchors_submit page of
        Inl e \<Rightarrow> Inl e
      | Inr anchors \<Rightarrow>
          (case scan_submit_anchors L base_url anchors of
             Inl e \<Rightarrow> Inl e
           | Inr (Some u) \<Rightarrow> Inr (Some u)
           | Inr None \<Rightarrow>
               (let text = (case q_body_submit page of Inl e \<Rightarrow> [] | Inr t \<Rightarrow> t)
                in case search_submit_url text of
                     Some m \<Rightarrow> Inr (Some m)
                   | None \<Rightarrow> Inr (search_url text))))"

definition extract_json_from_pre :: "lib \<Rightarrow> live_page \<Rightarrow> exn + pyval" where
  "extract_json_from_pre L page =
     (case q_pre page of
        Inl e \<Rightarrow> Inl e
      | Inr None \<Rightarrow> Inr PNone
      | Inr (Some (Inl e)) \<Rightarrow> Inl e
      | Inr (Some (Inr raw)) \<Rightarrow>
          (let txt = py_strip raw
           in case json_loads L txt of
                Some v \<Rightarrow> Inr v
              | None \<Rightarrow>
                  (case b64decode_utf8 L txt of
                     None \<Rightarrow> Inr PNone
                   | Some decoded \<Rightarrow>
                       (case json_loads L decoded of
                          Some v \<Rightarrow> Inr v
                        | None \<Rightarrow> Inr PNone))))"

definition download_file_bytes :: "lib \<Rightarrow> (string \<Rightarrow> http_result) \<Rightarrow> string \<Rightarrow> exn + string" where
  "download_file_bytes L fetch url =
     (case fetch url of
        ConnectionFailed \<Rightarrow> Inl RequestException
      | Response status content \<Rightarrow>
          if raise_for_status status then Inl RequestException else Inr content)"

text \<open>
  The body of the row loop of \<^verbatim>\<open>sum_values_on_pdf_page2\<close>: the value a row adds, \<open>None\<close>
  when the row is skipped (the cell is missing, is \<^verbatim>\<open>None\<close>, or \<^verbatim>\<open>float\<close> rejects it).
\<close>

definition cell_value :: "lib \<Rightarrow> nat \<Rightarrow> string option list \<Rightarrow> pyfloat option" where
  "cell_value L idx row =
     (if idx < length row
      then (case row ! idx of
              None \<Rightarrow> None
            | Some v \<Rightarrow> py_float L (py_strip (filter (\<lambda>c. c \<noteq> CHR '','') v)))
      else None)"

text \<open>The row loop: \<^verbatim>\<open>s += float(v)\<close>, from \<^verbatim>\<open>s = 0.0\<close>.\<close>

fun sum_column :: "lib \<Rightarrow> nat \<Rightarrow> table \<Rightarrow> pyfloat \<Rightarrow> pyfloat" where
  "sum_column L idx [] s = s"
| "sum_column L idx (row # rows) s =
     (case cell_value L idx row of
        None \<Rightarrow> sum_column L idx rows s
      | Some x \<Rightarrow> sum_column L idx rows (float_add L s x))"

text \<open>
  \<^verbatim>\<open>pdfplumber.open\<close> and the two uses of \<^verbatim>\<open>pdf.pages\<close> (lines 94, 95 and 97) are outside
  the \<^verbatim>\<open>try\<close>; what follows is inside it.
\<close>

definition sum_values_on_pdf_page2 :: "lib \<Rightarrow> string \<Rightarrow> string \<Rightarrow> exn + pyfloat option" where
  "sum_values_on_pdf_page2 L pdf_bytes column_name =
     (case pdf_open L pdf_bytes of
        Inl e \<Rightarrow> Inl e
      | Inr (Inl e) \<Rightarrow> Inl e
      | Inr (Inr pages) \<Rightarrow>
          if length pages < 2 then Inr None
          else (case pages ! 1 of
                  Inl e \<Rightarrow> Inr None
                | Inr None \<Rightarrow> Inr None
                | Inr (Some []) \<Rightarrow> Inr None
                | Inr (Some (headers # rows)) \<Rightarrow>
                    (let headers_lower = map (\<lambda>h. case h of None \<Rightarrow> [] | Some x \<Rightarrow> py_lower x) headers
                     in case index_of (py_lower column_name) headers_lower of
                          None \<Rightarrow> Inr None
                        | Some idx \<Rightarrow> Inr (Some (sum_column L idx rows (Finite 0))))))"

text \<open>
  The two places where \<^verbatim>\<open>compute_answer_from_page\<close> downloads a file and sums its
  second page: any exception of the download or of the handler is logged and the
  strategy yields nothing.
\<close>

definition pdf_value :: "lib \<Rightarrow> (string \<Rightarrow> http_result) \<Rightarrow> string \<Rightarrow> pyfloat option" where
  "pdf_value L fetch url =
     (case download_file_bytes L fetch url of
        Inl e \<Rightarrow> None
      | Inr pdf_bytes \<Rightarrow>
          (case sum_values_on_pdf_page2 L pdf_bytes ''value'' of
             Inl e \<Rightarrow> None
           | Inr val \<Rightarrow> val))"

text \<open>
  The anchor loop of \<^verbatim>\<open>compute_answer_from_page\<close>. It returns the first sum that is not
  \<^verbatim>\<open>None\<close> together with the URLs it has downloaded, in order. An exception of
  \<^verbatim>\<open>get_attribute\<close> ends the loop (the enclosing \<^verbatim>\<open>try\<close> swallows it); an exception of
  \<^verbatim>\<open>urljoin\<close> is logged like a failed download, before anything is requested.
\<close>

fun scan_pdf_anchors ::
  "lib \<Rightarrow> (string \<Rightarrow> http_result) \<Rightarrow> string \<Rightarrow> (exn + string option) list
     \<Rightarrow> pyfloat option \<times> string list" where
  "scan_pdf_anchors L fetch base [] = (None, [])"
| "scan_pdf_anchors L fetch base (a # anchors) =
     (case a of
        Inl e \<Rightarrow> (None, [])
      | Inr None \<Rightarrow> scan_pdf_anchors L fetch base anchors
      | Inr (Some href) \<Rightarrow>
          if href \<noteq> [] \<and> endswith (py_lower href) ''.pdf''
          then (case urljoin L base href of
                  None \<Rightarrow> scan_pdf_anchors L fetch base anchors
                | Some u \<Rightarrow>
                    (case pdf_value L fetch u of
                       Some val \<Rightarrow> (Some val, [u])
                     | None \<Rightarrow>
                         (case scan_pdf_anchors L fetch base anchors of
                            (r, gets) \<Rightarrow> (r, u # gets))))
          else scan_pdf_anchors L fetch base anchors)"

text \<open>
  Step 3 of \<^verbatim>\<open>compute_answer_from_page\<close>: the first numeric token of the body text.
  \<^verbatim>\<open>int(v)\<close> at line 170 is outside every \<^verbatim>\<open>try\<close>: its \<^verbatim>\<open>ValueError\<close> leaves the function.
\<close>

definition text_answer :: "lib \<Rightarrow> string \<Rightarrow> exn + pyval" where
  "text_answer L body_text =
     (case search_number body_text of
        None \<Rightarrow> Inr (PStr ''no-answer-found'')
      | Some v \<Rightarrow>
          if int_token v
          then (case py_int (int_max_str_digits L) v of
                  None \<Rightarrow> Inl OtherException
                | Some i \<Rightarrow> Inr (PInt i))
          else (case py_float L v of Some x \<Rightarrow> Inr (PFloat x) | None \<Rightarrow> Inr (PStr v)))"

text \<open>Steps 2 and 3: the links of the page, then its text.\<close>

definition page_answer ::
  "lib \<Rightarrow> (string \<Rightarrow> http_result) \<Rightarrow> live_page \<Rightarrow> (exn + pyval) \<times> string list" where
  "page_answer L fetch page =
     (case (case q_anchors_answer page of
              Inl e \<Rightarrow> (None, [])
            | Inr anchors \<Rightarrow> scan_pdf_anchors L fetch (page_url page) anchors) of
        (Some val, gets) \<Rightarrow> (Inr (PFloat val), gets)
      | (None, gets) \<Rightarrow>
          (text_answer L (case q_body_answer page of Inl e \<Rightarrow> [] | Inr t \<Rightarrow> t), gets))"

text \<open>
  \<^verbatim>\<open>compute_answer_from_page\<close> returns the answer or raises; the model pairs that with the
  URLs the call has downloaded with \<^verbatim>\<open>requests.get\<close>, in order.
\<close>

definition compute_answer_from_page ::
  "lib \<Rightarrow> (string \<Rightarrow> http_result) \<Rightarrow> live_page \<Rightarrow> pyval \<Rightarrow> (exn + pyval) \<times> string list" where
  "compute_answer_from_page L fetch page parsed_json =
     (case parsed_json of
        PDict d \<Rightarrow>
          (case map_of d ''answer'' of
             Some a \<Rightarrow> (Inr a, [])
           | None \<Rightarrow>
               (case map_of d ''url'' of
                  Some (PStr u) \<Rightarrow>
                    if endswith (py_lower u) ''.pdf''
                    then (case pdf_value L fetch u of
                            Some val \<Rightarrow> (Inr (PFloat val), [u])
                          | None \<Rightarrow>
                              (case page_answer L fetch page of (a, gets) \<Rightarrow> (a, u # gets)))
                    else page_answer L fetch page
                | _ \<Rightarrow> page_answer L fetch page))
      | _ \<Rightarrow> page_answer L fetch page)"

text \<open>
  \<^verbatim>\<open>submit_answer_json\<close>, given what the network answers to its POST. The configured
  timeout is taken to be positive and the record to serialise as JSON, as \<^verbatim>\<open>requests\<close>
  requires; the body of the response is one text, read by \<^verbatim>\<open>resp.json()\<close> and by
  \<^verbatim>\<open>resp.text\<close> alike.
\<close>

definition submit_answer_json :: "lib \<Rightarrow> http_result \<Rightarrow> exn + pyval" where
  "submit_answer_json L r =
     (case r of
        ConnectionFailed \<Rightarrow> Inl RequestException
      | Response status text \<Rightarrow>
          if raise_for_status status then Inl RequestException
          else (case json_loads L text of
                  Some v \<Rightarrow> Inr v
                | None \<Rightarrow> Inr (PDict [(''non_json_response'', PStr text)])))"

section \<open>The solver loop\<close>

text \<open>
  The configuration read from the environment at import time. Times are real numbers
  of seconds.
\<close>

record cfg =
  SOLVE_DEADLINE_SECONDS :: int
  PER_QUESTION_RETRIES :: int
  SUBMIT_TIMEOUT :: int
  PAGE_RENDER_WAIT :: real
  PLAYWRIGHT_TIMEOUT_MS :: int

text \<open>
  What the world does during one pass through the body of the attempt loop: whether
  \<^verbatim>\<open>context.new_page()\<close> and \<^verbatim>\<open>page.goto\<close> raise and how long they take, the page that
  is rendered, how long its evaluation takes (page queries and downloads), what
  \<^verbatim>\<open>requests.get\<close> answers for each URL, and what the grader answers to the POST and after
  how long. The world of a run gives the clock at the start, the launch of the browser
  and one such record per attempt, numbered from 0.
\<close>

record attempt_world =
  new_page_result :: "exn option"
  t_new_page :: real
  goto_result :: "exn option"
  t_goto :: real
  the_page :: live_page
  t_eval :: real
  fetch_result :: "string \<Rightarrow> http_result"
  post_result :: http_result
  t_post :: real

record world =
  start_time :: real
  launch_result :: "exn option"
  t_launch :: real
  attempt_world_of :: "nat \<Rightarrow> attempt_world"

text \<open>
  The calls that leave the process, in the order they are made. The calls whose timing
  matters carry the number of the attempt that makes them (the passes through the body
  of the attempt loop are numbered from 0, over the whole run) and the reading of the
  clock at the moment they begin.
\<close>

datatype event =
    LaunchBrowser
  | NewPage nat real
  | Goto nat real pyval
  | Get string
  | Post nat real string pyval int
  | ClosePage
  | Sleep real
  | CloseBrowser

text \<open>
  The local variables of \<^verbatim>\<open>solve_and_submit_loop\<close>, the clock, the number of pages that
  are open, the number of attempts completed so far (which is the number of the attempt
  under way), and the trace of events.
\<close>

record state =
  now :: real
  deadline :: real
  current_url :: pyval
  task_count :: nat
  retries_left :: int
  answered :: bool
  attempts :: nat
  open_pages :: nat
  trace :: "event list"

text \<open>
  The branch by which one pass leaves the body of the attempt loop, named after what the
  source logs there: the two \<^verbatim>\<open>except\<close> clauses at the end of the body, the three exits
  of the fallback when no submit URL is found, the failed POST, and the six exits after
  a grader response.
\<close>

datatype branch =
    RenderTimeout
  | PageException
  | FallbackSelfLoop
  | FallbackAdvance
  | FallbackNone
  | SubmitFailed
  | CorrectAdvance
  | CorrectDone
  | UnconfirmedRetry
  | UnconfirmedAdvance
  | NoUrlRetry
  | NoUrlFinish

definition emit :: "event list \<Rightarrow> state \<Rightarrow> state" where
  "emit es s = s\<lparr>trace := trace s @ es\<rparr>"

definition elapse :: "real \<Rightarrow> state \<Rightarrow> state" where
  "elapse d s = s\<lparr>now := now s + d\<rparr>"

text \<open>
  The clock advances only during the calls that leave the process and during sleeps; a
  sleep takes exactly the time asked for. \<open>backoff\<close> is \<^verbatim>\<open>time.sleep(0.5)\<close>.
\<close>

definition backoff :: "state \<Rightarrow> state" where
  "backoff s = elapse 0.5 (emit [Sleep 0.5] s)"

text \<open>\<^verbatim>\<open>page.close()\<close>; it takes no time and does not raise.\<close>

definition close_page :: "state \<Rightarrow> state" where
  "close_page s = emit [ClosePage] (s\<lparr>open_pages := open_pages s - 1\<rparr>)"

text \<open>
  The clauses \<^verbatim>\<open>except PWTimeoutError\<close> and \<^verbatim>\<open>except Exception\<close> that end the body of the
  attempt loop (lines 306 to 315): one retry is consumed, the solver sleeps and
  continues. Neither clause closes the page.
\<close>

definition on_exception :: "exn \<Rightarrow> state \<Rightarrow> branch \<times> state" where
  "on_exception e s =
     ((case e of PWTimeoutError \<Rightarrow> RenderTimeout | _ \<Rightarrow> PageException),
      backoff (s\<lparr>retries_left := retries_left s - 1\<rparr>))"

text \<open>The end of a task: \<^verbatim>\<open>current_url\<close> is set, \<^verbatim>\<open>answered = True\<close>, the page is closed.\<close>

definition finish_task :: "pyval \<Rightarrow> state \<Rightarrow> state" where
  "finish_task u s = close_page (s\<lparr>current_url := u, answered := True\<rparr>)"

text \<open>A retry after a response: one retry is consumed, the page closed, the solver sleeps.\<close>

definition retry_task :: "state \<Rightarrow> state" where
  "retry_task s = backoff (close_page (s\<lparr>retries_left := retries_left s - 1\<rparr>))"

text \<open>
  The three calls on the rendered page (lines 213 to 215): \<^verbatim>\<open>extract_json_from_pre\<close>,
  \<^verbatim>\<open>find_submit_url_from_page\<close>, \<^verbatim>\<open>compute_answer_from_page\<close>. The result is the exception
  of the first call that raises, or the parsed document, the submit URL and the answer;
  either way with the URLs downloaded on the way.
\<close>

definition evaluate_page ::
  "lib \<Rightarrow> attempt_world \<Rightarrow> string
     \<Rightarrow> (exn \<times> string list) + (pyval \<times> string option \<times> pyval \<times> string list)" where
  "evaluate_page L w url =
     (case extract_json_from_pre L (the_page w) of
        Inl e \<Rightarrow> Inl (e, [])
      | Inr parsed_json \<Rightarrow>
          (case find_submit_url_from_page L (the_page w) url of
             Inl e \<Rightarrow> Inl (e, [])
           | Inr submit_url \<Rightarrow>
               (case compute_answer_from_page L (fetch_result w) (the_page w) parsed_json of
                  (Inl e, gets) \<Rightarrow> Inl (e, gets)
                | (Inr answer_payload, gets) \<Rightarrow>
                    Inr (parsed_json, submit_url, answer_payload, gets))))"

text \<open>
  The fallback when no submit URL was found (lines 224 to 243): the body text is read
  again, and a candidate next URL is searched in its first 3000 characters.
\<close>

definition fallback_next :: "live_page \<Rightarrow> state \<Rightarrow> branch \<times> state" where
  "fallback_next page s =
     (case q_body_fallback page of
        Inl e \<Rightarrow> on_exception e s
      | Inr body \<Rightarrow>
          (case search_url (take 3000 body) of
             Some candidate \<Rightarrow>
               if PStr candidate = current_url s
               then (FallbackSelfLoop, finish_task PNone s)
               else (FallbackAdvance, finish_task (PStr candidate) s)
           | None \<Rightarrow> (FallbackNone, finish_task PNone s)))"

text \<open>
  A field of the grader's response: \<^verbatim>\<open>resp_json.get(k)\<close> when the response is a dict,
  \<^verbatim>\<open>None\<close> otherwise.
\<close>

definition response_field :: "pyval \<Rightarrow> string \<Rightarrow> pyval" where
  "response_field resp_json k = (case resp_json of PDict d \<Rightarrow> dict_get d k | _ \<Rightarrow> PNone)"

text \<open>The decision on the grader's response (lines 256 to 304).\<close>

definition after_response :: "pyval \<Rightarrow> state \<Rightarrow> branch \<times> state" where
  "after_response resp_json s =
     (let correct = response_field resp_json ''correct'';
          next_url = response_field resp_json ''url''
      in if correct = PBool True
         then (if py_truthy next_url
               then (CorrectAdvance, finish_task next_url s)
               else (CorrectDone, finish_task PNone s))
         else if py_truthy next_url
         then (if 0 < retries_left s \<and> 8 < deadline s - now s
               then (UnconfirmedRetry, retry_task s)
               else (UnconfirmedAdvance, finish_task next_url s))
         else (if 0 < retries_left s \<and> 8 < deadline s - now s
               then (NoUrlRetry, retry_task s)
               else (NoUrlFinish, finish_task PNone s)))"

text \<open>
  The POST of the submission record and what follows it (lines 217 to 222 and 245 to
  254). Only a \<^verbatim>\<open>RequestException\<close> is caught next to the call; any other exception would
  reach the clauses at the end of the body.
\<close>

definition submit_step ::
  "cfg \<Rightarrow> lib \<Rightarrow> attempt_world \<Rightarrow> string \<Rightarrow> string \<Rightarrow> string \<Rightarrow> pyval \<Rightarrow> state
     \<Rightarrow> branch \<times> state" where
  "submit_step c L w email secret submit_url answer_payload s =
     (let submit_body = PDict [(''email'', PStr email), (''secret'', PStr secret),
                               (''url'', current_url s), (''answer'', answer_payload)];
          s' = elapse (t_post w)
                 (emit [Post (attempts s) (now s) submit_url submit_body (SUBMIT_TIMEOUT c)] s)
      in case submit_answer_json L (post_result w) of
           Inl e \<Rightarrow>
             if e = RequestException then (SubmitFailed, retry_task s')
             else on_exception e s'
         | Inr resp_json \<Rightarrow> after_response resp_json s')"

text \<open>
  One pass through the body of the attempt loop, in three stages. The last stage works
  on the rendered page: the three extraction calls, then the fallback when no submit URL
  was found (\<^verbatim>\<open>if not submit_url\<close>: none, or an empty one), the submission otherwise.
\<close>

definition act_on_page ::
  "cfg \<Rightarrow> lib \<Rightarrow> attempt_world \<Rightarrow> string \<Rightarrow> string \<Rightarrow> string \<Rightarrow> state \<Rightarrow> branch \<times> state" where
  "act_on_page c L w email secret url s =
     (case evaluate_page L w url of
        Inl (e, gets) \<Rightarrow> on_exception e (emit (map Get gets) s)
      | Inr (parsed_json, submit_url, answer_payload, gets) \<Rightarrow>
          (let s' = emit (map Get gets) s
           in case submit_url of
                None \<Rightarrow> fallback_next (the_page w) s'
              | Some su \<Rightarrow>
                  if su = [] then fallback_next (the_page w) s'
                  else submit_step c L w email secret su answer_payload s'))"

text \<open>
  The middle stage: \<^verbatim>\<open>page.goto(current_url)\<close> and the settle delay. A URL that is not a
  string makes \<^verbatim>\<open>page.goto\<close> raise; a negative settle delay makes \<^verbatim>\<open>time.sleep\<close> raise.
  The time the evaluation of the page takes is charged before its result is used.
\<close>

definition render ::
  "cfg \<Rightarrow> lib \<Rightarrow> attempt_world \<Rightarrow> string \<Rightarrow> string \<Rightarrow> state \<Rightarrow> branch \<times> state" where
  "render c L w email secret s =
     (let s' = elapse (t_goto w) (emit [Goto (attempts s) (now s) (current_url s)] s)
      in case current_url s of
           PStr url \<Rightarrow>
             (case goto_result w of
                Some e \<Rightarrow> on_exception e s'
              | None \<Rightarrow>
                  if PAGE_RENDER_WAIT c < 0 then on_exception OtherException s'
                  else act_on_page c L w email secret url
                         (elapse (t_eval w)
                            (elapse (PAGE_RENDER_WAIT c) (emit [Sleep (PAGE_RENDER_WAIT c)] s'))))
         | _ \<Rightarrow> on_exception OtherException s')"

text \<open>
  The first stage: \<^verbatim>\<open>context.new_page()\<close>, called at the moment the guard of the attempt
  loop has been read. When it raises, no page is open.
\<close>

definition attempt ::
  "cfg \<Rightarrow> lib \<Rightarrow> attempt_world \<Rightarrow> string \<Rightarrow> string \<Rightarrow> state \<Rightarrow> branch \<times> state" where
  "attempt c L w email secret s =
     (let s' = elapse (t_new_page w) (emit [NewPage (attempts s) (now s)] s)
      in case new_page_result w of
           Some e \<Rightarrow> on_exception e s'
         | None \<Rightarrow> render c L w email secret (s'\<lparr>open_pages := open_pages s' + 1\<rparr>))"

text \<open>
  The branches on which the body consumes a unit of the retry budget: the recoverable
  failures (render timeout, render exception, failed submission) and the two retries
  after a response that does not confirm the answer.
\<close>

definition consumes_retry :: "branch \<Rightarrow> bool" where
  "consumes_retry b =
     (b \<in> {RenderTimeout, PageException, SubmitFailed, UnconfirmedRetry, NoUrlRetry})"

text \<open>
  The loops count their iterations against a fuel: a run that has used it up is returned
  as \<open>Running\<close>, with the state it has reached, and a loop that has ended as \<open>Finished\<close>.
  After each pass through its body the attempt loop advances the number of attempts.
\<close>

datatype run = Finished state | Running state

fun state_of :: "run \<Rightarrow> state" where
  "state_of (Finished s) = s"
| "state_of (Running s) = s"

fun attempt_loop ::
  "nat \<Rightarrow> cfg \<Rightarrow> lib \<Rightarrow> (nat \<Rightarrow> attempt_world) \<Rightarrow> string \<Rightarrow> string \<Rightarrow> state \<Rightarrow> run" where
  "attempt_loop 0 c L W email secret s = Running s"
| "attempt_loop (Suc k) c L W email secret s =
     (if now s < deadline s \<and> 0 \<le> retries_left s \<and> \<not> answered s
      then attempt_loop k c L W email secret
             ((snd (attempt c L (W (attempts s)) email secret s))\<lparr>attempts := attempts s + 1\<rparr>)
      else Finished s)"

fun task_loop ::
  "nat \<Rightarrow> cfg \<Rightarrow> lib \<Rightarrow> (nat \<Rightarrow> attempt_world) \<Rightarrow> string \<Rightarrow> string \<Rightarrow> state \<Rightarrow> run" where
  "task_loop 0 c L W email secret s = Running s"
| "task_loop (Suc k) c L W email secret s =
     (if py_truthy (current_url s) \<and> now s < deadline s
      then (case attempt_loop k c L W email secret
                   (s\<lparr>task_count := task_count s + 1,
                      retries_left := PER_QUESTION_RETRIES c,
                      answered := False\<rparr>) of
              Running s' \<Rightarrow> Running s'
            | Finished s' \<Rightarrow> task_loop k c L W email secret s')
      else Finished s)"

text \<open>
  How \<^verbatim>\<open>solve_and_submit_loop\<close> returns: by the early \<^verbatim>\<open>return\<close> of the localhost guard,
  through the \<^verbatim>\<open>except\<close> clause around the browser session, or after the loops.
  \<open>OutOfFuel\<close> is the model's: the loops were still running.
\<close>

datatype outcome = Aborted | Crashed | Completed | OutOfFuel

text \<open>
  Before the first task \<^verbatim>\<open>retries_left\<close> and \<^verbatim>\<open>answered\<close> are unbound in the source; the
  initial state gives them the values the first task assigns.
\<close>

definition initial_state :: "cfg \<Rightarrow> world \<Rightarrow> string \<Rightarrow> state" where
  "initial_state c W start_url =
     \<lparr>now = start_time W,
      deadline = start_time W + real_of_int (SOLVE_DEADLINE_SECONDS c),
      current_url = PStr start_url,
      task_count = 0,
      retries_left = PER_QUESTION_RETRIES c,
      answered = False,
      attempts = 0,
      open_pages = 0,
      trace = []\<rparr>"

definition solve_and_submit_loop ::
  "nat \<Rightarrow> cfg \<Rightarrow> lib \<Rightarrow> world \<Rightarrow> string \<Rightarrow> string \<Rightarrow> string \<Rightarrow> outcome \<times> state" where
  "solve_and_submit_loop fuel c L W email secret start_url =
     (let s0 = initial_state c W start_url
      in if is_localhost_url L start_url then (Aborted, s0)
         else
           (let s1 = elapse (t_launch W) (emit [LaunchBrowser] s0)
            in case launch_result W of
                 Some e \<Rightarrow> (Crashed, s1)
               | None \<Rightarrow>
                   (case task_loop fuel c L (attempt_world_of W) email secret s1 of
                      Finished s \<Rightarrow> (Completed, emit [CloseBrowser] s)
                    | Running s \<Rightarrow> (OutOfFuel, s))))"

section \<open>The specification's words\<close>

subsection \<open>The extractor chain\<close>

text \<open>
  The specification describes the answer extractor as strategies tried in a fixed order.
  In the three definitions below a strategy yields a result or declines: the structured
  strategy yields the value of the \<^verbatim>\<open>answer\<close> field when the parsed document is an object
  that has one (whatever the value), the linked-file strategy looks at the object's \<^verbatim>\<open>url\<close>
  first and at the hyperlinks of the page after it and yields the first sum that is not
  \<^verbatim>\<open>None\<close>, and the textual fallback never declines (it returns a value or raises).
\<close>

definition spec_structured_answer :: "pyval \<Rightarrow> pyval option" where
  "spec_structured_answer parsed_json =
     (case parsed_json of PDict d \<Rightarrow> map_of d ''answer'' | _ \<Rightarrow> None)"

definition spec_linked_file_answer ::
  "lib \<Rightarrow> (string \<Rightarrow> http_result) \<Rightarrow> live_page \<Rightarrow> pyval \<Rightarrow> pyval option" where
  "spec_linked_file_answer L fetch page parsed_json =
     (let from_object =
            (case parsed_json of
               PDict d \<Rightarrow>
                 (case map_of d ''url'' of
                    Some (PStr u) \<Rightarrow> if endswith (py_lower u) ''.pdf'' then pdf_value L fetch u else None
                  | _ \<Rightarrow> None)
             | _ \<Rightarrow> None);
          from_links =
            (case q_anchors_answer page of
               Inl e \<Rightarrow> None
             | Inr anchors \<Rightarrow> fst (scan_pdf_anchors L fetch (page_url page) anchors))
      in map_option PFloat (case from_object of Some x \<Rightarrow> Some x | None \<Rightarrow> from_links))"

definition spec_textual_fallback :: "lib \<Rightarrow> live_page \<Rightarrow> exn + pyval" where
  "spec_textual_fallback L page =
     text_answer L (case q_body_answer page of Inl e \<Rightarrow> [] | Inr t \<Rightarrow> t)"

fun spec_first_result :: "'a option list \<Rightarrow> 'a option" where
  "spec_first_result [] = None"
| "spec_first_result (None # rs) = spec_first_result rs"
| "spec_first_result (Some r # rs) = Some r"

text \<open>
  The rule of the specification, \<^emph>\<open>the first non-null result wins\<close>: a strategy whose result
  is null counts as one that declines.
\<close>

definition non_null :: "pyval option \<Rightarrow> pyval option" where
  "non_null r = (if r = Some PNone then None else r)"

definition spec_first_non_null_answer ::
  "lib \<Rightarrow> (string \<Rightarrow> http_result) \<Rightarrow> live_page \<Rightarrow> pyval \<Rightarrow> exn + pyval" where
  "spec_first_non_null_answer L fetch page parsed_json =
     (case spec_first_result
             [non_null (spec_structured_answer parsed_json),
              non_null (spec_linked_file_answer L fetch page parsed_json)] of
        Some a \<Rightarrow> Inr a
      | None \<Rightarrow> spec_textual_fallback L page)"

subsection \<open>Success of a submission, and the events that cost a retry\<close>

text \<open>The success codes of HTTP.\<close>

definition spec_success_status :: "nat \<Rightarrow> bool" where
  "spec_success_status status = (200 \<le> status \<and> status < 300)"

text \<open>
  What an attempt meets in the world, stated without the solver. The page is rendered
  when it opens, the URL is a string, the navigation and the settle delay raise nothing
  and the three extraction calls return; \<open>rendered\<close> then gives what they return. A
  \<^emph>\<open>render failure\<close> is an attempt whose page is not rendered, or whose fallback read of
  the body (made when no submit URL was found) raises. A \<^emph>\<open>submission failure\<close> is an
  attempt that posts and whose POST raises. An \<^emph>\<open>unconfirmed-answer retry\<close> is an attempt
  that posts, gets a response whose \<^verbatim>\<open>correct\<close> is not \<^verbatim>\<open>true\<close>, and has a retry left and
  more than 8 seconds before the deadline once the response has arrived.
\<close>

definition rendered ::
  "cfg \<Rightarrow> lib \<Rightarrow> attempt_world \<Rightarrow> pyval \<Rightarrow> (pyval \<times> string option \<times> pyval \<times> string list) option" where
  "rendered c L w url =
     (case url of
        PStr u \<Rightarrow>
          if new_page_result w = None \<and> goto_result w = None \<and> 0 \<le> PAGE_RENDER_WAIT c
          then (case evaluate_page L w u of Inl e \<Rightarrow> None | Inr r \<Rightarrow> Some r)
          else None
      | _ \<Rightarrow> None)"

definition posts :: "cfg \<Rightarrow> lib \<Rightarrow> attempt_world \<Rightarrow> pyval \<Rightarrow> bool" where
  "posts c L w url =
     (case rendered c L w url of
        Some (parsed_json, Some submit_url, answer_payload, gets) \<Rightarrow> submit_url \<noteq> []
      | _ \<Rightarrow> False)"

definition spec_render_failure :: "cfg \<Rightarrow> lib \<Rightarrow> attempt_world \<Rightarrow> state \<Rightarrow> bool" where
  "spec_render_failure c L w s =
     (case rendered c L w (current_url s) of
        None \<Rightarrow> True
      | Some r \<Rightarrow> \<not> posts c L w (current_url s) \<and> isl (q_body_fallback (the_page w)))"

definition spec_submission_failure :: "cfg \<Rightarrow> lib \<Rightarrow> attempt_world \<Rightarrow> state \<Rightarrow> bool" where
  "spec_submission_failure c L w s =
     (posts c L w (current_url s) \<and> isl (submit_answer_json L (post_result w)))"

definition spec_unconfirmed_retry :: "cfg \<Rightarrow> lib \<Rightarrow> attempt_world \<Rightarrow> state \<Rightarrow> bool" where
  "spec_unconfirmed_retry c L w s =
     (posts c L w (current_url s)
      \<and> (case submit_answer_json L (post_result w) of
            Inl e \<Rightarrow> False
          | Inr resp_json \<Rightarrow>
              response_field resp_json ''correct'' \<noteq> PBool True
              \<and> 0 < retries_left s
              \<and> 8 < deadline s
                      - (now s + t_new_page w + t_goto w + PAGE_RENDER_WAIT c + t_eval w + t_post w)))"

section \<open>Example libraries, pages and worlds\<close>

text \<open>
  Instances of the library functions for the examples. They agree with the libraries on
  the inputs the examples use: the host of a URL of the shape
  \<^verbatim>\<open>scheme://[user@]host[:port][/path]\<close>, the join of a base URL with an absolute URL or an
  absolute path, a table of JSON documents, of base64 texts and of numerals, the sum of
  two finite floats whose exact sum is a double, the default limit of 4300 digits, and
  three small PDF documents (every other byte string is not a PDF).
\<close>

definition quoted :: "string \<Rightarrow> string" where
  "quoted s = CHR 0x22 # s @ [CHR 0x22]"

definition ref_hostname :: "string \<Rightarrow> exn + string option" where
  "ref_hostname url =
     (let rest = (case dropWhile (\<lambda>c. c \<noteq> CHR '':'') url of [] \<Rightarrow> url | _ # r \<Rightarrow> r);
          netloc = (if take 2 rest = ''//''
                    then takeWhile (\<lambda>c. c \<notin> set ''/?#'') (drop 2 rest) else []);
          hostinfo = rev (takeWhile (\<lambda>c. c \<noteq> CHR ''@'') (rev netloc));
          host = (case hostinfo of
                    [] \<Rightarrow> []
                  | c # r \<Rightarrow> if c = CHR ''['' then takeWhile (\<lambda>c. c \<noteq> CHR '']'') r
                             else takeWhile (\<lambda>c. c \<noteq> CHR '':'') hostinfo)
      in if (CHR ''['' \<in> set netloc) \<noteq> (CHR '']'' \<in> set netloc) then Inl OtherException
         else if host = [] then Inr None
         else Inr (Some (py_lower host)))"

definition ref_urljoin :: "string \<Rightarrow> string \<Rightarrow> string option" where
  "ref_urljoin base href =
     (if take 7 href = ''http://'' \<or> take 8 href = ''https://'' then Some href
      else (let p = (if take 8 base = ''https://'' then 8 else 7)
            in Some (take p base @ takeWhile (\<lambda>c. c \<notin> set ''/?#'') (drop p base) @ href)))"

definition ref_float_add :: "pyfloat \<Rightarrow> pyfloat \<Rightarrow> pyfloat" where
  "ref_float_add x y = (case (x, y) of (Finite a, Finite b) \<Rightarrow> Finite (a + b) | _ \<Rightarrow> NaN)"

definition doc_answer :: string where
  "doc_answer = ''{'' @ quoted ''answer'' @ '': 42}''"

definition resp_right :: string where
  "resp_right =
     ''{'' @ quoted ''correct'' @ '': true, '' @ quoted ''url'' @ '': '' @ quoted ''https://x/q2'' @ ''}''"

definition resp_wrong :: string where
  "resp_wrong =
     ''{'' @ quoted ''correct'' @ '': false, '' @ quoted ''url'' @ '': '' @ quoted ''https://x/q3'' @ ''}''"

definition ref_json :: "string \<Rightarrow> pyval option" where
  "ref_json =
     map_of
       [(doc_answer, PDict [(''answer'', PInt 42)]),
        (''null'', PNone),
        (resp_right, PDict [(''correct'', PBool True), (''url'', PStr ''https://x/q2'')]),
        (resp_wrong, PDict [(''correct'', PBool False), (''url'', PStr ''https://x/q3'')])]"

definition ref_table :: table where
  "ref_table =
     [[Some ''Name'', None, Some ''VALUE''],
      [Some ''a'', Some ''x'', Some ''1,200''],
      [Some ''b'', Some ''x'', Some ''n/a''],
      [Some ''c''],
      [Some ''d'', Some ''x'', None],
      [Some ''e'', Some ''x'', Some '' 3.5 '']]"

definition ref_pdf :: "string \<Rightarrow> exn + pdf_doc" where
  "ref_pdf pdf_bytes =
     (if pdf_bytes = ''%PDF two pages'' then Inr (Inr [Inr None, Inr (Some ref_table)])
      else if pdf_bytes = ''%PDF one page'' then Inr (Inr [Inr (Some ref_table)])
      else if pdf_bytes = ''%PDF broken page tree'' then Inr (Inl OtherException)
      else Inl OtherException)"

definition ref_lib :: lib where
  "ref_lib =
     \<lparr>urlparse_hostname = ref_hostname,
      urljoin = ref_urljoin,
      json_loads = ref_json,
      b64decode_utf8 = map_of [(''bnVsbA=='', ''null'')],
      py_float = map_of [(''1200'', Finite 1200), (''3.5'', Finite 3.5), (''17.25'', Finite 17.25),
                         (''nan'', NaN)],
      float_add = ref_float_add,
      int_max_str_digits = 4300,
      pdf_open = ref_pdf\<rparr>"

text \<open>The configuration with the defaults of the source.\<close>

definition default_cfg :: cfg where
  "default_cfg =
     \<lparr>SOLVE_DEADLINE_SECONDS = 170, PER_QUESTION_RETRIES = 2, SUBMIT_TIMEOUT = 25,
      PAGE_RENDER_WAIT = 0.8, PLAYWRIGHT_TIMEOUT_MS = 30000\<rparr>"

text \<open>
  A quiz page with a structured answer (between a no-break space and a line feed), a
  link to the submit endpoint and a numeric token in its text.
\<close>

definition quiz_page :: live_page where
  "quiz_page =
     \<lparr>page_url = ''https://x/q1'',
      q_pre = Inr (Some (Inr ([CHR 0xA0, CHR '' ''] @ doc_answer @ [CHR 0x0A]))),
      q_anchors_submit = Inr [Inr (Some ''/about''), Inr (Some ''/Submit'')],
      q_body_submit = Inr ''The result is 17 items'',
      q_anchors_answer = Inr [Inr (Some ''/about''), Inr (Some ''/Submit'')],
      q_body_answer = Inr ''The result is 17 items'',
      q_body_fallback = Inr ''The result is 17 items''\<rparr>"

text \<open>
  A page without a submit link whose text shows its own address only once the client
  side has filled it in: the first read of the body finds no URL, the later one does.
\<close>

definition selfloop_page :: live_page where
  "selfloop_page =
     \<lparr>page_url = ''https://x/q1'',
      q_pre = Inr None,
      q_anchors_submit = Inr [],
      q_body_submit = Inr ''Loading'',
      q_anchors_answer = Inr [],
      q_body_answer = Inr ''Loading'',
      q_body_fallback = Inr ''You are at https://x/q1 now''\<rparr>"

text \<open>
  Attempts: a slow one that the grader accepts, one that also takes half a second to open
  its page, a quick one that the grader rejects while naming a next URL, one on the
  self-referring page, one whose navigation times out, one whose POST is answered with
  \<^verbatim>\<open>503 Service Unavailable\<close>, and one whose POST is answered with \<^verbatim>\<open>304 Not Modified\<close> and
  an empty body.
\<close>

definition slow_attempt :: attempt_world where
  "slow_attempt =
     \<lparr>new_page_result = None, t_new_page = 0,
      goto_result = None, t_goto = 29,
      the_page = quiz_page, t_eval = 25,
      fetch_result = (\<lambda>url. ConnectionFailed),
      post_result = Response 200 resp_right, t_post = 5.2\<rparr>"

definition late_attempt :: attempt_world where
  "late_attempt =
     \<lparr>new_page_result = None, t_new_page = 0.5,
      goto_result = None, t_goto = 29,
      the_page = quiz_page, t_eval = 25,
      fetch_result = (\<lambda>url. ConnectionFailed),
      post_result = Response 200 resp_right, t_post = 0.95\<rparr>"

definition rejected_attempt :: attempt_world where
  "rejected_attempt =
     \<lparr>new_page_result = None, t_new_page = 0,
      goto_result = None, t_goto = 2,
      the_page = quiz_page, t_eval = 1,
      fetch_result = (\<lambda>url. ConnectionFailed),
      post_result = Response 200 resp_wrong, t_post = 0.2\<rparr>"

definition selfloop_attempt :: attempt_world where
  "selfloop_attempt =
     \<lparr>new_page_result = None, t_new_page = 0,
      goto_result = None, t_goto = 2,
      the_page = selfloop_page, t_eval = 1,
      fetch_result = (\<lambda>url. ConnectionFailed),
      post_result = ConnectionFailed, t_post = 0\<rparr>"

definition timeout_attempt :: attempt_world where
  "timeout_attempt =
     \<lparr>new_page_result = None, t_new_page = 0,
      goto_result = Some PWTimeoutError, t_goto = 30,
      the_page = quiz_page, t_eval = 0,
      fetch_result = (\<lambda>url. ConnectionFailed),
      post_result = ConnectionFailed, t_post = 0\<rparr>"

definition unavailable_attempt :: attempt_world where
  "unavailable_attempt =
     \<lparr>new_page_result = None, t_new_page = 0,
      goto_result = None, t_goto = 2,
      the_page = quiz_page, t_eval = 1,
      fetch_result = (\<lambda>url. ConnectionFailed),
      post_result = Response 503 ''Service Unavailable'', t_post = 0.2\<rparr>"

definition not_modified_attempt :: attempt_world where
  "not_modified_attempt =
     \<lparr>new_page_result = None, t_new_page = 0,
      goto_result = None, t_goto = 2,
      the_page = quiz_page, t_eval = 1,
      fetch_result = (\<lambda>url. ConnectionFailed),
      post_result = Response 304 [], t_post = 0.2\<rparr>"

definition slow_world :: world where
  "slow_world =
     \<lparr>start_time = 0, launch_result = None, t_launch = 1,
      attempt_world_of = (\<lambda>n. slow_attempt)\<rparr>"

definition late_world :: world where
  "late_world =
     \<lparr>start_time = 0, launch_result = None, t_launch = 1,
      attempt_world_of = (\<lambda>n. late_attempt)\<rparr>"

definition timeout_world :: world where
  "timeout_world =
     \<lparr>start_time = 0, launch_result = None, t_launch = 1,
      attempt_world_of = (\<lambda>n. timeout_attempt)\<rparr>"

section \<open>Invariants of a run\<close>

text \<open>
  Between two passes of the attempt loop: every page in the trace was opened by an
  attempt already made, strictly before the deadline, and no attempt opened two; every
  navigation in the trace began when the \<^verbatim>\<open>new_page\<close> call of its own attempt had returned;
  and every POST began when the opening of the page, the navigation, the settle delay and
  the evaluation of its own attempt were over.
\<close>

definition started_in_time :: "cfg \<Rightarrow> (nat \<Rightarrow> attempt_world) \<Rightarrow> state \<Rightarrow> bool" where
  "started_in_time c W s \<longleftrightarrow>
     (\<forall>n t. NewPage n t \<in> set (trace s) \<longrightarrow> n < attempts s \<and> t < deadline s)
     \<and> (\<forall>n t t'. NewPage n t \<in> set (trace s) \<and> NewPage n t' \<in> set (trace s) \<longrightarrow> t = t')
     \<and> (\<forall>n t u. Goto n t u \<in> set (trace s) \<longrightarrow>
            NewPage n (t - t_new_page (W n)) \<in> set (trace s))
     \<and> (\<forall>n t u b k. Post n t u b k \<in> set (trace s) \<longrightarrow>
            NewPage n (t - (t_new_page (W n) + t_goto (W n) + PAGE_RENDER_WAIT c + t_eval (W n)))
              \<in> set (trace s))"

section \<open>Properties\<close>

lemmas text_defs = py_lower_def lower_char_def is_space_def py_strip_def endswith_def digit_of_def
  is_digit_def is_url_char_def url_at_def submit_url_at_def number_at_def unsigned_def int_token_def
  digits_value_def py_int_def dict_get_def

lemmas ref_defs = quoted_def ref_hostname_def ref_urljoin_def ref_float_add_def doc_answer_def
  resp_right_def resp_wrong_def ref_json_def ref_table_def ref_pdf_def ref_lib_def default_cfg_def
  quiz_page_def selfloop_page_def slow_attempt_def late_attempt_def rejected_attempt_def
  selfloop_attempt_def timeout_attempt_def unavailable_attempt_def not_modified_attempt_def
  slow_world_def late_world_def timeout_world_def

lemmas extract_defs = find_submit_url_from_page_def extract_json_from_pre_def raise_for_status_def
  download_file_bytes_def cell_value_def sum_values_on_pdf_page2_def pdf_value_def text_answer_def
  page_answer_def compute_answer_from_page_def submit_answer_json_def evaluate_page_def

lemmas step_defs = emit_def elapse_def backoff_def close_page_def on_exception_def finish_task_def
  retry_task_def fallback_next_def response_field_def after_response_def submit_step_def
  act_on_page_def render_def attempt_def

lemmas effect_defs = emit_def elapse_def backoff_def close_page_def finish_task_def retry_task_def

lemmas run_defs = initial_state_def solve_and_submit_loop_def

subsection \<open>What each stage of the attempt body changes\<close>

lemma consumes_retry_simps:
  "consumes_retry RenderTimeout" "consumes_retry PageException" "consumes_retry SubmitFailed"
  "consumes_retry UnconfirmedRetry" "consumes_retry NoUrlRetry"
  "\<not> consumes_retry FallbackSelfLoop" "\<not> consumes_retry FallbackAdvance"
  "\<not> consumes_retry FallbackNone" "\<not> consumes_retry CorrectAdvance"
  "\<not> consumes_retry CorrectDone" "\<not> consumes_retry UnconfirmedAdvance"
  "\<not> consumes_retry NoUrlFinish"
  by (simp_all add: consumes_retry_def)

lemma on_exception_frame:
  "deadline (snd (on_exception e s)) = deadline s"
  "attempts (snd (on_exception e s)) = attempts s"
  "retries_left (snd (on_exception e s)) = retries_left s - 1"
  "consumes_retry (fst (on_exception e s))"
  "trace (snd (on_exception e s)) = trace s @ [Sleep 0.5]"
  by (simp_all add: on_exception_def effect_defs consumes_retry_def split: exn.splits)

lemma on_exception_label:
  "fst (on_exception e s) = RenderTimeout \<or> fst (on_exception e s) = PageException"
  by (simp add: on_exception_def split: exn.splits)

lemma fallback_next_frame:
  "deadline (snd (fallback_next page s)) = deadline s"
  "attempts (snd (fallback_next page s)) = attempts s"
  "retries_left (snd (fallback_next page s))
     = retries_left s - (if consumes_retry (fst (fallback_next page s)) then 1 else 0)"
  "NewPage n t \<in> set (trace (snd (fallback_next page s))) \<longleftrightarrow> NewPage n t \<in> set (trace s)"
  "Goto n t u \<in> set (trace (snd (fallback_next page s))) \<longleftrightarrow> Goto n t u \<in> set (trace s)"
  by (simp_all add: fallback_next_def on_exception_frame effect_defs consumes_retry_simps
      split: sum.splits option.splits)

lemma after_response_frame:
  "deadline (snd (after_response r s)) = deadline s"
  "attempts (snd (after_response r s)) = attempts s"
  "retries_left (snd (after_response r s))
     = retries_left s - (if consumes_retry (fst (after_response r s)) then 1 else 0)"
  "NewPage n t \<in> set (trace (snd (after_response r s))) \<longleftrightarrow> NewPage n t \<in> set (trace s)"
  "Goto n t u \<in> set (trace (snd (after_response r s))) \<longleftrightarrow> Goto n t u \<in> set (trace s)"
  by (simp_all add: after_response_def Let_def effect_defs consumes_retry_simps)

lemma submit_answer_json_exn: "submit_answer_json L r = Inl e \<Longrightarrow> e = RequestException"
  by (simp add: submit_answer_json_def split: http_result.splits option.splits if_splits)

lemma submit_step_frame:
  "deadline (snd (submit_step c L w email secret su a s)) = deadline s"
  "attempts (snd (submit_step c L w email secret su a s)) = attempts s"
  "retries_left (snd (submit_step c L w email secret su a s))
     = retries_left s - (if consumes_retry (fst (submit_step c L w email secret su a s)) then 1 else 0)"
  "NewPage n t \<in> set (trace (snd (submit_step c L w email secret su a s)))
     \<longleftrightarrow> NewPage n t \<in> set (trace s)"
  "Goto n t u \<in> set (trace (snd (submit_step c L w email secret su a s)))
     \<longleftrightarrow> Goto n t u \<in> set (trace s)"
  by (simp_all add: submit_step_def Let_def after_response_frame on_exception_frame effect_defs
      consumes_retry_simps split: sum.splits)

lemma act_on_page_frame:
  "deadline (snd (act_on_page c L w email secret url s)) = deadline s"
  "attempts (snd (act_on_page c L w email secret url s)) = attempts s"
  "retries_left (snd (act_on_page c L w email secret url s))
     = retries_left s - (if consumes_retry (fst (act_on_page c L w email secret url s)) then 1 else 0)"
  "NewPage n t \<in> set (trace (snd (act_on_page c L w email secret url s)))
     \<longleftrightarrow> NewPage n t \<in> set (trace s)"
  "Goto n t u \<in> set (trace (snd (act_on_page c L w email secret url s)))
     \<longleftrightarrow> Goto n t u \<in> set (trace s)"
  by (simp_all add: act_on_page_def Let_def submit_step_frame fallback_next_frame
      on_exception_frame emit_def image_iff split: sum.splits option.splits prod.splits)

lemma render_frame:
  "deadline (snd (render c L w email secret s)) = deadline s"
  "attempts (snd (render c L w email secret s)) = attempts s"
  "retries_left (snd (render c L w email secret s))
     = retries_left s - (if consumes_retry (fst (render c L w email secret s)) then 1 else 0)"
  "NewPage n t \<in> set (trace (snd (render c L w email secret s))) \<longleftrightarrow> NewPage n t \<in> set (trace s)"
  "Goto n t u \<in> set (trace (snd (render c L w email secret s)))
     \<longleftrightarrow> Goto n t u \<in> set (trace s) \<or> n = attempts s \<and> t = now s \<and> u = current_url s"
  by (auto simp add: render_def Let_def act_on_page_frame on_exception_frame emit_def elapse_def
      split: pyval.splits option.splits)

lemma attempt_frame:
  "deadline (snd (attempt c L w email secret s)) = deadline s"
  "attempts (snd (attempt c L w email secret s)) = attempts s"
  "retries_left (snd (attempt c L w email secret s))
     = retries_left s - (if consumes_retry (fst (attempt c L w email secret s)) then 1 else 0)"
  "NewPage n t \<in> set (trace (snd (attempt c L w email secret s)))
     \<longleftrightarrow> NewPage n t \<in> set (trace s) \<or> n = attempts s \<and> t = now s"
  by (auto simp add: attempt_def Let_def render_frame on_exception_frame emit_def elapse_def
      split: option.splits)

lemma attempt_Goto:
  "Goto n t u \<in> set (trace (snd (attempt c L w email secret s)))
     \<Longrightarrow> Goto n t u \<in> set (trace s) \<or> n = attempts s \<and> t = now s + t_new_page w"
  by (auto simp add: attempt_def Let_def render_frame on_exception_frame emit_def elapse_def
      split: option.splits)

lemma fallback_next_Post:
  "Post n t u b k \<in> set (trace (snd (fallback_next page s))) \<longleftrightarrow> Post n t u b k \<in> set (trace s)"
  by (simp add: fallback_next_def on_exception_frame effect_defs split: sum.splits option.splits)

lemma after_response_Post:
  "Post n t u b k \<in> set (trace (snd (after_response r s))) \<longleftrightarrow> Post n t u b k \<in> set (trace s)"
  by (simp add: after_response_def Let_def effect_defs)

lemma submit_step_Post:
  "Post n t u b k \<in> set (trace (snd (submit_step c L w email secret su a s)))
     \<Longrightarrow> Post n t u b k \<in> set (trace s) \<or> n = attempts s \<and> t = now s"
  by (auto simp add: submit_step_def Let_def after_response_Post on_exception_frame effect_defs
      split: sum.splits if_splits)

lemma act_on_page_Post:
  "Post n t u b k \<in> set (trace (snd (act_on_page c L w email secret url s)))
     \<Longrightarrow> Post n t u b k \<in> set (trace s) \<or> n = attempts s \<and> t = now s"
  by (auto simp add: act_on_page_def Let_def fallback_next_Post on_exception_frame emit_def
      split: sum.splits option.splits prod.splits if_splits dest!: submit_step_Post)

lemma render_Post:
  "Post n t u b k \<in> set (trace (snd (render c L w email secret s)))
     \<Longrightarrow> Post n t u b k \<in> set (trace s)
         \<or> n = attempts s \<and> t = now s + t_goto w + PAGE_RENDER_WAIT c + t_eval w"
  by (auto simp add: render_def Let_def on_exception_frame emit_def elapse_def
      split: pyval.splits option.splits if_splits dest!: act_on_page_Post)

lemma attempt_Post:
  "Post n t u b k \<in> set (trace (snd (attempt c L w email secret s)))
     \<Longrightarrow> Post n t u b k \<in> set (trace s)
         \<or> n = attempts s \<and> t = now s + t_new_page w + t_goto w + PAGE_RENDER_WAIT c + t_eval w"
  by (auto simp add: attempt_def Let_def on_exception_frame emit_def elapse_def
      split: option.splits dest!: render_Post)

subsection \<open>Invariants of the loops\<close>

lemma attempt_started_in_time:
  assumes "started_in_time c W s" and "now s < deadline s"
  shows "started_in_time c W
           ((snd (attempt c L (W (attempts s)) email secret s))\<lparr>attempts := attempts s + 1\<rparr>)"
proof -
  let ?s' = "snd (attempt c L (W (attempts s)) email secret s)"
  let ?d = "\<lambda>n. t_new_page (W n) + t_goto (W n) + PAGE_RENDER_WAIT c + t_eval (W n)"
  from assms(1) have inv: "n < attempts s \<and> t < deadline s" if "NewPage n t \<in> set (trace s)" for n t
    using that unfolding started_in_time_def by blast
  have new: "n < attempts s + 1 \<and> t < deadline s" if "NewPage n t \<in> set (trace ?s')" for n t
  proof -
    from that have "NewPage n t \<in> set (trace s) \<or> n = attempts s \<and> t = now s"
      by (simp add: attempt_frame)
    then show ?thesis
    proof
      assume "NewPage n t \<in> set (trace s)"
      from inv [OF this] show ?thesis by simp
    next
      assume "n = attempts s \<and> t = now s"
      with assms(2) show ?thesis by simp
    qed
  qed
  have goto: "NewPage n (t - t_new_page (W n)) \<in> set (trace ?s')"
    if "Goto n t u \<in> set (trace ?s')" for n t u
  proof -
    from attempt_Goto [OF that]
    have "Goto n t u \<in> set (trace s) \<or> n = attempts s \<and> t = now s + t_new_page (W (attempts s))" .
    then show ?thesis
    proof
      assume "Goto n t u \<in> set (trace s)"
      with assms(1) have "NewPage n (t - t_new_page (W n)) \<in> set (trace s)"
        unfolding started_in_time_def by blast
      then show ?thesis
        by (simp add: attempt_frame)
    next
      assume "n = attempts s \<and> t = now s + t_new_page (W (attempts s))"
      then show ?thesis
        by (simp add: attempt_frame)
    qed
  qed
  have post: "NewPage n (t - ?d n) \<in> set (trace ?s')"
    if "Post n t u b k \<in> set (trace ?s')" for n t u b k
  proof -
    from attempt_Post [OF that]
    have "Post n t u b k \<in> set (trace s) \<or> n = attempts s \<and> t = now s + ?d (attempts s)"
      by (simp add: add.assoc)
    then show ?thesis
    proof
      assume "Post n t u b k \<in> set (trace s)"
      with assms(1) have "NewPage n (t - ?d n) \<in> set (trace s)"
        unfolding started_in_time_def by blast
      then show ?thesis
        by (simp add: attempt_frame)
    next
      assume "n = attempts s \<and> t = now s + ?d (attempts s)"
      then show ?thesis
        by (simp add: attempt_frame)
    qed
  qed
  from assms(1) have one: "t = t'"
    if "NewPage n t \<in> set (trace s)" "NewPage n t' \<in> set (trace s)" for n t t'
    using that unfolding started_in_time_def by blast
  have uniq: "t = t'" if "NewPage n t \<in> set (trace ?s')" "NewPage n t' \<in> set (trace ?s')" for n t t'
  proof -
    from that have "NewPage n t \<in> set (trace s) \<or> n = attempts s \<and> t = now s"
      and "NewPage n t' \<in> set (trace s) \<or> n = attempts s \<and> t' = now s"
      by (simp_all add: attempt_frame)
    with inv [of n t] inv [of n t'] one [of n t t'] show ?thesis
      by auto
  qed
  show ?thesis
    unfolding started_in_time_def
  proof (intro conjI allI impI)
    fix n t
    assume "NewPage n t \<in> set (trace (?s'\<lparr>attempts := attempts s + 1\<rparr>))"
    then have "NewPage n t \<in> set (trace ?s')" by simp
    from new [OF this]
    show "n < attempts (?s'\<lparr>attempts := attempts s + 1\<rparr>)"
      and "t < deadline (?s'\<lparr>attempts := attempts s + 1\<rparr>)"
      by (simp_all add: attempt_frame)
  next
    fix n t t'
    assume "NewPage n t \<in> set (trace (?s'\<lparr>attempts := attempts s + 1\<rparr>))
              \<and> NewPage n t' \<in> set (trace (?s'\<lparr>attempts := attempts s + 1\<rparr>))"
    then have "NewPage n t \<in> set (trace ?s')" "NewPage n t' \<in> set (trace ?s')" by simp_all
    then show "t = t'" by (rule uniq)
  next
    fix n t u
    assume "Goto n t u \<in> set (trace (?s'\<lparr>attempts := attempts s + 1\<rparr>))"
    then have "Goto n t u \<in> set (trace ?s')" by simp
    from goto [OF this]
    show "NewPage n (t - t_new_page (W n)) \<in> set (trace (?s'\<lparr>attempts := attempts s + 1\<rparr>))"
      by simp
  next
    fix n t u b k
    assume "Post n t u b k \<in> set (trace (?s'\<lparr>attempts := attempts s + 1\<rparr>))"
    then have "Post n t u b k \<in> set (trace ?s')" by simp
    from post [OF this]
    show "NewPage n (t - ?d n) \<in> set (trace (?s'\<lparr>attempts := attempts s + 1\<rparr>))"
      by simp
  qed
qed

lemma attempt_loop_started_in_time:
  "started_in_time c W s \<Longrightarrow> started_in_time c W (state_of (attempt_loop k c L W email secret s))"
proof (induction k arbitrary: s)
  case 0
  then show ?case by simp
next
  case (Suc k)
  show ?case
  proof (cases "now s < deadline s \<and> 0 \<le> retries_left s \<and> \<not> answered s")
    case True
    with Suc.prems
    have "started_in_time c W
            ((snd (attempt c L (W (attempts s)) email secret s))\<lparr>attempts := attempts s + 1\<rparr>)"
      by (intro attempt_started_in_time) simp_all
    from Suc.IH [OF this] True show ?thesis
      by simp
  next
    case False
    with Suc.prems show ?thesis
      by auto
  qed
qed

lemma task_loop_started_in_time:
  "started_in_time c W s \<Longrightarrow> started_in_time c W (state_of (task_loop k c L W email secret s))"
proof (induction k arbitrary: s)
  case 0
  then show ?case by simp
next
  case (Suc k)
  let ?s = "s\<lparr>task_count := task_count s + 1, retries_left := PER_QUESTION_RETRIES c,
               answered := False\<rparr>"
  from Suc.prems have "started_in_time c W ?s"
    by (simp add: started_in_time_def)
  then have *: "started_in_time c W (state_of (attempt_loop k c L W email secret ?s))"
    by (rule attempt_loop_started_in_time)
  show ?case
  proof (cases "attempt_loop k c L W email secret ?s")
    case (Finished s')
    with * have "started_in_time c W s'" by simp
    from Suc.IH [OF this] Finished Suc.prems show ?thesis
      by simp
  next
    case (Running s')
    with * Suc.prems show ?thesis
      by simp
  qed
qed

lemma attempt_loop_deadline:
  "deadline (state_of (attempt_loop k c L W email secret s)) = deadline s"
  by (induction k arbitrary: s) (simp_all add: attempt_frame)

lemma task_loop_deadline:
  "deadline (state_of (task_loop k c L W email secret s)) = deadline s"
proof (induction k arbitrary: s)
  case 0
  then show ?case by simp
next
  case (Suc k)
  let ?s = "s\<lparr>task_count := task_count s + 1, retries_left := PER_QUESTION_RETRIES c,
               answered := False\<rparr>"
  have *: "deadline (state_of (attempt_loop k c L W email secret ?s)) = deadline s"
    by (simp add: attempt_loop_deadline)
  show ?case
  proof (cases "attempt_loop k c L W email secret ?s")
    case (Finished s')
    with * Suc.IH [of s'] show ?thesis by simp
  next
    case (Running s')
    with * show ?thesis by simp
  qed
qed

text \<open>The retry budget stays at or above any bound below the loop's exit value.\<close>

lemma attempt_loop_retries:
  "b \<le> - 1 \<Longrightarrow> b \<le> retries_left s
     \<Longrightarrow> b \<le> retries_left (state_of (attempt_loop k c L W email secret s))"
proof (induction k arbitrary: s)
  case 0
  then show ?case by simp
next
  case (Suc k)
  show ?case
  proof (cases "now s < deadline s \<and> 0 \<le> retries_left s \<and> \<not> answered s")
    case True
    with Suc.prems(1)
    have "b \<le> retries_left
             ((snd (attempt c L (W (attempts s)) email secret s))\<lparr>attempts := attempts s + 1\<rparr>)"
      by (simp add: attempt_frame)
    from Suc.IH [OF Suc.prems(1) this] True show ?thesis
      by simp
  next
    case False
    with Suc.prems show ?thesis
      by auto
  qed
qed

lemma task_loop_retries:
  "b \<le> - 1 \<Longrightarrow> b \<le> PER_QUESTION_RETRIES c \<Longrightarrow> b \<le> retries_left s
     \<Longrightarrow> b \<le> retries_left (state_of (task_loop k c L W email secret s))"
proof (induction k arbitrary: s)
  case 0
  then show ?case by simp
next
  case (Suc k)
  let ?s = "s\<lparr>task_count := task_count s + 1, retries_left := PER_QUESTION_RETRIES c,
               answered := False\<rparr>"
  from Suc.prems
  have *: "b \<le> retries_left (state_of (attempt_loop k c L W email secret ?s))"
    by (intro attempt_loop_retries) simp_all
  show ?case
  proof (cases "attempt_loop k c L W email secret ?s")
    case (Finished s')
    with * have "b \<le> retries_left s'" by simp
    from Suc.IH [OF Suc.prems(1,2) this] Finished Suc.prems show ?thesis
      by simp
  next
    case (Running s')
    with * Suc.prems show ?thesis
      by simp
  qed
qed

lemma solve_state:
  "snd (solve_and_submit_loop fuel c L W email secret start_url) = initial_state c W start_url
   \<or> snd (solve_and_submit_loop fuel c L W email secret start_url)
       = elapse (t_launch W) (emit [LaunchBrowser] (initial_state c W start_url))
   \<or> snd (solve_and_submit_loop fuel c L W email secret start_url)
       = state_of (task_loop fuel c L (attempt_world_of W) email secret
           (elapse (t_launch W) (emit [LaunchBrowser] (initial_state c W start_url))))
   \<or> snd (solve_and_submit_loop fuel c L W email secret start_url)
       = emit [CloseBrowser] (state_of (task_loop fuel c L (attempt_world_of W) email secret
           (elapse (t_launch W) (emit [LaunchBrowser] (initial_state c W start_url)))))"
  by (simp add: solve_and_submit_loop_def Let_def split: option.splits run.splits)

lemma solve_started_in_time:
  "started_in_time c (attempt_world_of W)
     (snd (solve_and_submit_loop fuel c L W email secret start_url))"
proof -
  let ?s1 = "elapse (t_launch W) (emit [LaunchBrowser] (initial_state c W start_url))"
  have 0: "started_in_time c (attempt_world_of W) (initial_state c W start_url)"
    by (simp add: started_in_time_def initial_state_def)
  have 1: "started_in_time c (attempt_world_of W) ?s1"
    by (simp add: started_in_time_def initial_state_def emit_def elapse_def)
  then have 2: "started_in_time c (attempt_world_of W)
      (state_of (task_loop fuel c L (attempt_world_of W) email secret ?s1))"
    by (rule task_loop_started_in_time)
  then have 3: "started_in_time c (attempt_world_of W)
      (emit [CloseBrowser] (state_of (task_loop fuel c L (attempt_world_of W) email secret ?s1)))"
    by (simp add: started_in_time_def emit_def)
  from solve_state [of fuel c L W email secret start_url] 0 1 2 3 show ?thesis
    by auto
qed

lemma solve_deadline:
  "deadline (snd (solve_and_submit_loop fuel c L W email secret start_url))
     = start_time W + real_of_int (SOLVE_DEADLINE_SECONDS c)"
  using solve_state [of fuel c L W email secret start_url]
  by (auto simp: task_loop_deadline emit_def elapse_def initial_state_def)

lemma solve_retries:
  "b \<le> - 1 \<Longrightarrow> b \<le> PER_QUESTION_RETRIES c
     \<Longrightarrow> b \<le> retries_left (snd (solve_and_submit_loop fuel c L W email secret start_url))"
  using solve_state [of fuel c L W email secret start_url]
    task_loop_retries [of b c "elapse (t_launch W) (emit [LaunchBrowser] (initial_state c W start_url))"
      fuel L "attempt_world_of W" email secret]
  by (auto simp: emit_def elapse_def initial_state_def)

subsection \<open>The ways out of an attempt\<close>

lemma attempt_submits:
  assumes "new_page_result w = None" and "current_url s = PStr url" and "goto_result w = None"
    and "0 \<le> PAGE_RENDER_WAIT c"
    and "evaluate_page L w url = Inr (parsed_json, Some submit_url, answer_payload, gets)"
    and "submit_url \<noteq> []"
  shows "attempt c L w email secret s
    = submit_step c L w email secret submit_url answer_payload
        (s\<lparr>open_pages := open_pages s + 1,
           now := now s + t_new_page w + t_goto w + PAGE_RENDER_WAIT c + t_eval w,
           trace := trace s @ [NewPage (attempts s) (now s),
                               Goto (attempts s) (now s + t_new_page w) (PStr url),
                               Sleep (PAGE_RENDER_WAIT c)] @ map Get gets\<rparr>)"
  using assms by (simp add: attempt_def render_def act_on_page_def emit_def elapse_def)

lemma attempt_falls_back:
  assumes "new_page_result w = None" and "current_url s = PStr url" and "goto_result w = None"
    and "0 \<le> PAGE_RENDER_WAIT c"
    and "evaluate_page L w url = Inr (parsed_json, submit_url, answer_payload, gets)"
    and "submit_url = None \<or> submit_url = Some []"
  shows "attempt c L w email secret s
    = fallback_next (the_page w)
        (s\<lparr>open_pages := open_pages s + 1,
           now := now s + t_new_page w + t_goto w + PAGE_RENDER_WAIT c + t_eval w,
           trace := trace s @ [NewPage (attempts s) (now s),
                               Goto (attempts s) (now s + t_new_page w) (PStr url),
                               Sleep (PAGE_RENDER_WAIT c)] @ map Get gets\<rparr>)"
  using assms by (auto simp add: attempt_def render_def act_on_page_def emit_def elapse_def)

lemma rendered_Some:
  assumes "rendered c L w (current_url s) = Some r"
  shows "\<exists>url. new_page_result w = None \<and> current_url s = PStr url \<and> goto_result w = None
           \<and> 0 \<le> PAGE_RENDER_WAIT c \<and> evaluate_page L w url = Inr r"
  using assms by (simp add: rendered_def split: pyval.splits if_splits sum.splits)

lemma attempt_not_rendered:
  assumes "rendered c L w (current_url s) = None"
  shows "\<exists>e s'. attempt c L w email secret s = on_exception e s' \<and> retries_left s' = retries_left s"
proof (cases "new_page_result w")
  case (Some e)
  then show ?thesis
    by (auto simp add: attempt_def Let_def emit_def elapse_def intro!: exI)
next
  case None
  note np = this
  show ?thesis
  proof (cases "\<exists>url. current_url s = PStr url")
    case False
    with np show ?thesis
      by (cases "current_url s")
        (auto simp add: attempt_def render_def Let_def emit_def elapse_def intro!: exI)
  next
    case True
    then obtain url where url: "current_url s = PStr url" ..
    show ?thesis
    proof (cases "goto_result w")
      case (Some e)
      with np url show ?thesis
        by (auto simp add: attempt_def render_def Let_def emit_def elapse_def intro!: exI)
    next
      case None
      note gt = this
      show ?thesis
      proof (cases "PAGE_RENDER_WAIT c < 0")
        case True
        with np url gt show ?thesis
          by (auto simp add: attempt_def render_def Let_def emit_def elapse_def intro!: exI)
      next
        case False
        with assms np url gt obtain e gets where "evaluate_page L w url = Inl (e, gets)"
          by (cases "evaluate_page L w url") (auto simp add: rendered_def)
        with np url gt False show ?thesis
          by (auto simp add: attempt_def render_def act_on_page_def Let_def emit_def elapse_def
              intro!: exI)
      qed
    qed
  qed
qed

text \<open>
  What one pass through the attempt body costs, and how it leaves the body, in terms of
  what the attempt meets.
\<close>

lemma attempt_cost:
  "retries_left (snd (attempt c L w email secret s))
     = retries_left s
       - (if spec_render_failure c L w s \<or> spec_submission_failure c L w s
             \<or> spec_unconfirmed_retry c L w s then 1 else 0)"
  "fst (attempt c L w email secret s) \<in> {RenderTimeout, PageException}
     \<longleftrightarrow> spec_render_failure c L w s"
  "fst (attempt c L w email secret s) = SubmitFailed \<longleftrightarrow> spec_submission_failure c L w s"
  "fst (attempt c L w email secret s) \<in> {UnconfirmedRetry, NoUrlRetry}
     \<longleftrightarrow> spec_unconfirmed_retry c L w s"
proof -
  let ?P = "retries_left (snd (attempt c L w email secret s))
     = retries_left s
       - (if spec_render_failure c L w s \<or> spec_submission_failure c L w s
             \<or> spec_unconfirmed_retry c L w s then 1 else 0)
    \<and> (fst (attempt c L w email secret s) \<in> {RenderTimeout, PageException}
         \<longleftrightarrow> spec_render_failure c L w s)
    \<and> (fst (attempt c L w email secret s) = SubmitFailed \<longleftrightarrow> spec_submission_failure c L w s)
    \<and> (fst (attempt c L w email secret s) \<in> {UnconfirmedRetry, NoUrlRetry}
         \<longleftrightarrow> spec_unconfirmed_retry c L w s)"
  have ?P
  proof (cases "rendered c L w (current_url s)")
    case None
    from attempt_not_rendered [OF this, of email secret]
    obtain e s' where a: "attempt c L w email secret s = on_exception e s'"
      and r: "retries_left s' = retries_left s"
      by blast
    from None have "spec_render_failure c L w s" "\<not> spec_submission_failure c L w s"
      "\<not> spec_unconfirmed_retry c L w s"
      by (simp_all add: spec_render_failure_def spec_submission_failure_def
          spec_unconfirmed_retry_def posts_def)
    with a r on_exception_label [of e s'] show ?thesis
      by (auto simp add: on_exception_frame)
  next
    case (Some r)
    obtain parsed_json submit_url answer_payload gets
      where r: "r = (parsed_json, submit_url, answer_payload, gets)"
      by (cases r)
    from rendered_Some [OF Some] r obtain url
      where h: "new_page_result w = None" "current_url s = PStr url" "goto_result w = None"
        "0 \<le> PAGE_RENDER_WAIT c"
        "evaluate_page L w url = Inr (parsed_json, submit_url, answer_payload, gets)"
      by blast
    show ?thesis
    proof (cases "submit_url = None \<or> submit_url = Some []")
      case True
      with Some r have np: "\<not> posts c L w (current_url s)"
        by (auto simp add: posts_def)
      with Some True show ?thesis
        by (auto simp add: attempt_falls_back [OF h True] fallback_next_def on_exception_def
            effect_defs spec_render_failure_def spec_submission_failure_def
            spec_unconfirmed_retry_def
            split: sum.splits option.splits exn.splits)
    next
      case False
      then obtain su where su: "submit_url = Some su" "su \<noteq> []"
        by auto
      with Some r have p: "posts c L w (current_url s)"
        by (simp add: posts_def)
      show ?thesis
      proof (cases "submit_answer_json L (post_result w)")
        case (Inl e)
        with submit_answer_json_exn [OF Inl] Some p show ?thesis
          by (simp add: attempt_submits [OF h(1-4) h(5) [unfolded su(1)] su(2)] submit_step_def
              effect_defs spec_render_failure_def spec_submission_failure_def
              spec_unconfirmed_retry_def)
      next
        case (Inr resp_json)
        with Some p show ?thesis
          by (simp add: attempt_submits [OF h(1-4) h(5) [unfolded su(1)] su(2)] submit_step_def
              after_response_def Let_def effect_defs spec_render_failure_def
              spec_submission_failure_def spec_unconfirmed_retry_def)
      qed
    qed
  qed
  then show
    "retries_left (snd (attempt c L w email secret s))
     = retries_left s
       - (if spec_render_failure c L w s \<or> spec_submission_failure c L w s
             \<or> spec_unconfirmed_retry c L w s then 1 else 0)"
    "fst (attempt c L w email secret s) \<in> {RenderTimeout, PageException}
     \<longleftrightarrow> spec_render_failure c L w s"
    "fst (attempt c L w email secret s) = SubmitFailed \<longleftrightarrow> spec_submission_failure c L w s"
    "fst (attempt c L w email secret s) \<in> {UnconfirmedRetry, NoUrlRetry}
     \<longleftrightarrow> spec_unconfirmed_retry c L w s"
    by blast+
qed

subsection \<open>The extractors\<close>

lemma page_answer_spec:
  "fst (page_answer L fetch page)
     = (case (case q_anchors_answer page of
                Inl e \<Rightarrow> None
              | Inr anchors \<Rightarrow> fst (scan_pdf_anchors L fetch (page_url page) anchors)) of
          Some x \<Rightarrow> Inr (PFloat x)
        | None \<Rightarrow> spec_textual_fallback L page)"
  by (simp add: page_answer_def spec_textual_fallback_def case_prod_beta
      split: sum.splits option.splits)

lemma index_of_None: "index_of x ys = None \<longleftrightarrow> x \<notin> set ys"
  by (induction ys) (auto split: option.splits)

lemma index_of_first:
  "i < length ys \<Longrightarrow> ys ! i = x \<Longrightarrow> (\<forall>j<i. ys ! j \<noteq> x) \<Longrightarrow> index_of x ys = Some i"
proof (induction ys arbitrary: i)
  case Nil
  then show ?case by simp
next
  case (Cons y ys)
  show ?case
  proof (cases i)
    case 0
    with Cons.prems show ?thesis by simp
  next
    case (Suc i')
    with Cons.prems have "y \<noteq> x"
      by auto
    moreover from Suc Cons.prems have "index_of x ys = Some i'"
      by (intro Cons.IH) auto
    ultimately show ?thesis
      using Suc by simp
  qed
qed

text \<open>The row loop adds the cells that parse, from the top, to the running sum.\<close>

lemma sum_column_foldl:
  "sum_column L idx rows s = foldl (float_add L) s (List.map_filter (cell_value L idx) rows)"
  by (induction rows arbitrary: s) (simp_all add: map_filter_simps split: option.splits)

subsection \<open>The example runs\<close>

lemma late_run:
  "solve_and_submit_loop 6 default_cfg ref_lib late_world ''me@example.org'' ''s3cret''
     ''https://x/q1''
   = (Completed,
      \<lparr>now = 226, deadline = 170, current_url = PStr ''https://x/q2'', task_count = 4,
       retries_left = 2, answered = True, attempts = 4, open_pages = 0,
       trace =
         [LaunchBrowser,
          NewPage 0 1, Goto 0 1.5 (PStr ''https://x/q1''), Sleep 0.8,
          Post 0 56.3 ''https://x/Submit''
            (PDict [(''email'', PStr ''me@example.org''), (''secret'', PStr ''s3cret''),
                    (''url'', PStr ''https://x/q1''), (''answer'', PInt 42)]) 25,
          ClosePage,
          NewPage 1 57.25, Goto 1 57.75 (PStr ''https://x/q2''), Sleep 0.8,
          Post 1 112.55 ''https://x/Submit''
            (PDict [(''email'', PStr ''me@example.org''), (''secret'', PStr ''s3cret''),
                    (''url'', PStr ''https://x/q2''), (''answer'', PInt 42)]) 25,
          ClosePage,
          NewPage 2 113.5, Goto 2 114 (PStr ''https://x/q2''), Sleep 0.8,
          Post 2 168.8 ''https://x/Submit''
            (PDict [(''email'', PStr ''me@example.org''), (''secret'', PStr ''s3cret''),
                    (''url'', PStr ''https://x/q2''), (''answer'', PInt 42)]) 25,
          ClosePage,
          NewPage 3 169.75, Goto 3 170.25 (PStr ''https://x/q2''), Sleep 0.8,
          Post 3 225.05 ''https://x/Submit''
            (PDict [(''email'', PStr ''me@example.org''), (''secret'', PStr ''s3cret''),
                    (''url'', PStr ''https://x/q2''), (''answer'', PInt 42)]) 25,
          ClosePage,
          CloseBrowser]\<rparr>)"
  by (simp add: ref_defs text_defs extract_defs is_localhost_url_def step_defs run_defs
      eval_nat_numeral)

lemma slow_run:
  "solve_and_submit_loop 5 default_cfg ref_lib slow_world ''me@example.org'' ''s3cret''
     ''https://x/q1''
   = (Completed,
      \<lparr>now = 181, deadline = 170, current_url = PStr ''https://x/q2'', task_count = 3,
       retries_left = 2, answered = True, attempts = 3, open_pages = 0,
       trace =
         [LaunchBrowser,
          NewPage 0 1, Goto 0 1 (PStr ''https://x/q1''), Sleep 0.8,
          Post 0 55.8 ''https://x/Submit''
            (PDict [(''email'', PStr ''me@example.org''), (''secret'', PStr ''s3cret''),
                    (''url'', PStr ''https://x/q1''), (''answer'', PInt 42)]) 25,
          ClosePage,
          NewPage 1 61, Goto 1 61 (PStr ''https://x/q2''), Sleep 0.8,
          Post 1 115.8 ''https://x/Submit''
            (PDict [(''email'', PStr ''me@example.org''), (''secret'', PStr ''s3cret''),
                    (''url'', PStr ''https://x/q2''), (''answer'', PInt 42)]) 25,
          ClosePage,
          NewPage 2 121, Goto 2 121 (PStr ''https://x/q2''), Sleep 0.8,
          Post 2 175.8 ''https://x/Submit''
            (PDict [(''email'', PStr ''me@example.org''), (''secret'', PStr ''s3cret''),
                    (''url'', PStr ''https://x/q2''), (''answer'', PInt 42)]) 25,
          ClosePage,
          CloseBrowser]\<rparr>)"
  by (simp add: ref_defs text_defs extract_defs is_localhost_url_def step_defs run_defs
      eval_nat_numeral)

lemma timeout_run:
  "solve_and_submit_loop 8 default_cfg ref_lib timeout_world ''me@example.org'' ''s3cret''
     ''https://x/q1''
   = (Completed,
      \<lparr>now = 184, deadline = 170, current_url = PStr ''https://x/q1'', task_count = 2,
       retries_left = - 1, answered = False, attempts = 6, open_pages = 6,
       trace =
         [LaunchBrowser,
          NewPage 0 1, Goto 0 1 (PStr ''https://x/q1''), Sleep 0.5,
          NewPage 1 31.5, Goto 1 31.5 (PStr ''https://x/q1''), Sleep 0.5,
          NewPage 2 62, Goto 2 62 (PStr ''https://x/q1''), Sleep 0.5,
          NewPage 3 92.5, Goto 3 92.5 (PStr ''https://x/q1''), Sleep 0.5,
          NewPage 4 123, Goto 4 123 (PStr ''https://x/q1''), Sleep 0.5,
          NewPage 5 153.5, Goto 5 153.5 (PStr ''https://x/q1''), Sleep 0.5,
          CloseBrowser]\<rparr>)"
  by (simp add: ref_defs text_defs is_localhost_url_def step_defs run_defs eval_nat_numeral)

section \<open>The claims\<close>

text \<open>
  Claim C1, counterexample. With the default configuration (a deadline of 170 seconds,
  a settle delay of 0.8 seconds) and a world in which every \<^verbatim>\<open>new_page\<close> call takes half a
  second, every navigation 29 seconds, every page evaluation 25 and every POST 0.95, the
  fourth attempt (number 3) is entered at 169.75 seconds, before the deadline; its
  navigation begins at 170.25 seconds and its POST to the grader at 225.05 seconds, both
  after the deadline. The guard of the attempt loop is the only look at the clock before
  a navigation and before a POST.
\<close>

theorem C1_late_navigation_and_post_counterexample:
  "Goto 3 170.25 (PStr ''https://x/q2'')
     \<in> set (trace (snd (solve_and_submit_loop 6 default_cfg ref_lib late_world
                           ''me@example.org'' ''s3cret'' ''https://x/q1'')))
   \<and> Post 3 225.05 ''https://x/Submit''
       (PDict [(''email'', PStr ''me@example.org''), (''secret'', PStr ''s3cret''),
               (''url'', PStr ''https://x/q2''), (''answer'', PInt 42)]) 25
     \<in> set (trace (snd (solve_and_submit_loop 6 default_cfg ref_lib late_world
                           ''me@example.org'' ''s3cret'' ''https://x/q1'')))
   \<and> deadline (snd (solve_and_submit_loop 6 default_cfg ref_lib late_world
                           ''me@example.org'' ''s3cret'' ''https://x/q1'')) = 170
   \<and> fst (solve_and_submit_loop 6 default_cfg ref_lib late_world
             ''me@example.org'' ''s3cret'' ''https://x/q1'') = Completed"
  by (simp add: late_run)

text \<open>
  Claim C1, as amended. In every run, and at every point of it (whatever the fuel), each
  attempt is entered strictly before the deadline: the page of an attempt is opened at a
  moment \<open>t\<close> with \<open>t < start_time + SOLVE_DEADLINE_SECONDS\<close>, and an attempt opens one
  page. The navigation and the POST of an attempt follow without another look at the
  clock. A navigation begins when the \<^verbatim>\<open>new_page\<close> call of its own attempt returns: the
  time of the navigation less the time that call took is the moment at which that attempt
  opened its page, a moment before the deadline; so a navigation begins before the
  deadline whenever opening the page took no time. A POST begins when the opening of the
  page, the navigation, the settle delay and the evaluation of the page of its own attempt
  are over: the time of the POST less these four durations is the moment at which that
  attempt opened its page.
\<close>

theorem C1_pages_open_before_deadline:
  "(NewPage n t \<in> set (trace (snd (solve_and_submit_loop fuel c L W email secret start_url)))
      \<longrightarrow> t < start_time W + real_of_int (SOLVE_DEADLINE_SECONDS c)
          \<and> (NewPage n t' \<in> set (trace (snd (solve_and_submit_loop fuel c L W email secret start_url)))
               \<longrightarrow> t' = t))
   \<and> (Goto n t u \<in> set (trace (snd (solve_and_submit_loop fuel c L W email secret start_url)))
      \<longrightarrow> NewPage n (t - t_new_page (attempt_world_of W n))
             \<in> set (trace (snd (solve_and_submit_loop fuel c L W email secret start_url)))
          \<and> t - t_new_page (attempt_world_of W n)
              < start_time W + real_of_int (SOLVE_DEADLINE_SECONDS c)
          \<and> (t_new_page (attempt_world_of W n) \<le> 0
               \<longrightarrow> t < start_time W + real_of_int (SOLVE_DEADLINE_SECONDS c)))
   \<and> (Post n t u' b k \<in> set (trace (snd (solve_and_submit_loop fuel c L W email secret start_url)))
      \<longrightarrow> NewPage n (t - (t_new_page (attempt_world_of W n) + t_goto (attempt_world_of W n)
                            + PAGE_RENDER_WAIT c + t_eval (attempt_world_of W n)))
             \<in> set (trace (snd (solve_and_submit_loop fuel c L W email secret start_url)))
          \<and> t - (t_new_page (attempt_world_of W n) + t_goto (attempt_world_of W n)
                  + PAGE_RENDER_WAIT c + t_eval (attempt_world_of W n))
              < start_time W + real_of_int (SOLVE_DEADLINE_SECONDS c))"
proof -
  let ?s = "snd (solve_and_submit_loop fuel c L W email secret start_url)"
  let ?W = "attempt_world_of W"
  let ?d = "start_time W + real_of_int (SOLVE_DEADLINE_SECONDS c)"
  have d: "deadline ?s = ?d"
    by (rule solve_deadline)
  have inv: "started_in_time c ?W ?s"
    by (rule solve_started_in_time)
  from inv d have new: "t < ?d" if "NewPage n t \<in> set (trace ?s)" for n t
    using that unfolding started_in_time_def by metis
  from inv have one: "t' = t" if "NewPage n t \<in> set (trace ?s)" "NewPage n t' \<in> set (trace ?s)"
    for n t t'
    using that unfolding started_in_time_def by blast
  from inv have goto: "NewPage n (t - t_new_page (?W n)) \<in> set (trace ?s)"
    if "Goto n t u \<in> set (trace ?s)" for n t u
    using that unfolding started_in_time_def by blast
  from inv
  have post: "NewPage n (t - (t_new_page (?W n) + t_goto (?W n) + PAGE_RENDER_WAIT c + t_eval (?W n)))
                \<in> set (trace ?s)"
    if "Post n t u b k \<in> set (trace ?s)" for n t u b k
    using that unfolding started_in_time_def by blast
  show ?thesis
  proof (intro conjI impI)
    show "t < ?d" if "NewPage n t \<in> set (trace ?s)"
      using that by (rule new)
    show "t' = t" if "NewPage n t \<in> set (trace ?s)" "NewPage n t' \<in> set (trace ?s)"
      using that by (rule one)
    show "NewPage n (t - t_new_page (?W n)) \<in> set (trace ?s)" if "Goto n t u \<in> set (trace ?s)"
      using that by (rule goto)
    show "t - t_new_page (?W n) < ?d" if "Goto n t u \<in> set (trace ?s)"
      using new [OF goto [OF that]] .
    show "t < ?d" if "Goto n t u \<in> set (trace ?s)" "t_new_page (?W n) \<le> 0"
      using new [OF goto [OF that(1)]] that(2) by simp
    show "NewPage n (t - (t_new_page (?W n) + t_goto (?W n) + PAGE_RENDER_WAIT c + t_eval (?W n)))
            \<in> set (trace ?s)"
      if "Post n t u' b k \<in> set (trace ?s)"
      using that by (rule post)
    show "t - (t_new_page (?W n) + t_goto (?W n) + PAGE_RENDER_WAIT c + t_eval (?W n)) < ?d"
      if "Post n t u' b k \<in> set (trace ?s)"
      using new [OF post [OF that]] .
  qed
qed

theorem C1_witness:
  "Goto 3 170.25 (PStr ''https://x/q2'')
     \<in> set (trace (snd (solve_and_submit_loop 6 default_cfg ref_lib late_world
                           ''me@example.org'' ''s3cret'' ''https://x/q1'')))
   \<and> Post 3 225.05 ''https://x/Submit''
       (PDict [(''email'', PStr ''me@example.org''), (''secret'', PStr ''s3cret''),
               (''url'', PStr ''https://x/q2''), (''answer'', PInt 42)]) 25
     \<in> set (trace (snd (solve_and_submit_loop 6 default_cfg ref_lib late_world
                           ''me@example.org'' ''s3cret'' ''https://x/q1'')))
   \<and> NewPage 3 169.75
     \<in> set (trace (snd (solve_and_submit_loop 6 default_cfg ref_lib late_world
                           ''me@example.org'' ''s3cret'' ''https://x/q1'')))
   \<and> (169.75 :: real) < start_time late_world + real_of_int (SOLVE_DEADLINE_SECONDS default_cfg)
   \<and> t_new_page (attempt_world_of slow_world 2) \<le> 0
   \<and> Goto 2 121 (PStr ''https://x/q2'')
     \<in> set (trace (snd (solve_and_submit_loop 5 default_cfg ref_lib slow_world
                           ''me@example.org'' ''s3cret'' ''https://x/q1'')))
   \<and> (121 :: real) < start_time slow_world + real_of_int (SOLVE_DEADLINE_SECONDS default_cfg)"
proof -
  let ?b = "PDict [(''email'', PStr ''me@example.org''), (''secret'', PStr ''s3cret''),
                   (''url'', PStr ''https://x/q2''), (''answer'', PInt 42)]"
  have w: "t_new_page (attempt_world_of late_world 3) = 0.5"
    "t_goto (attempt_world_of late_world 3) = 29" "t_eval (attempt_world_of late_world 3) = 25"
    "PAGE_RENDER_WAIT default_cfg = 0.8" "t_new_page (attempt_world_of slow_world 2) = 0"
    "start_time late_world = 0" "start_time slow_world = 0"
    "SOLVE_DEADLINE_SECONDS default_cfg = 170"
    by (simp_all add: late_world_def late_attempt_def slow_world_def slow_attempt_def
        default_cfg_def)
  from C1_pages_open_before_deadline [of 3 "169.75" 6 default_cfg
      ref_lib late_world "''me@example.org''" "''s3cret''" "''https://x/q1''"]
    C1_pages_open_before_deadline [of 3 "170.25" 6 default_cfg
      ref_lib late_world "''me@example.org''" "''s3cret''" "''https://x/q1''" _
      "PStr ''https://x/q2''"]
    C1_pages_open_before_deadline [of 3 "225.05" 6 default_cfg
      ref_lib late_world "''me@example.org''" "''s3cret''" "''https://x/q1''" _ _
      "''https://x/Submit''" ?b 25]
    C1_pages_open_before_deadline [of 2 121 5 default_cfg
      ref_lib slow_world "''me@example.org''" "''s3cret''" "''https://x/q1''" _
      "PStr ''https://x/q2''"]
    w
  show ?thesis
    by (simp add: late_run slow_run)
qed

text \<open>
  Claim C2. A start URL whose host, as the URL parser reports it, is \<^verbatim>\<open>localhost\<close>,
  \<^verbatim>\<open>127.0.0.1\<close> or \<^verbatim>\<open>::1\<close>, or ends in \<^verbatim>\<open>.local\<close>, makes the solver return at once through
  the localhost guard, whatever the fuel: the browser is not launched, no page is opened,
  no attempt is made and the trace of calls is empty.
\<close>

theorem C2_localhost_start_aborts_before_any_call:
  assumes "urlparse_hostname L start_url = Inr (Some h)"
    and "py_lower h \<in> {''localhost'', ''127.0.0.1'', ''::1''} \<or> endswith (py_lower h) ''.local''"
  shows "solve_and_submit_loop fuel c L W email secret start_url
           = (Aborted, initial_state c W start_url)
         \<and> trace (initial_state c W start_url) = []
         \<and> attempts (initial_state c W start_url) = 0
         \<and> open_pages (initial_state c W start_url) = 0"
proof -
  from assms have "is_localhost_url L start_url"
    by (auto simp: is_localhost_url_def)
  then show ?thesis
    by (simp add: solve_and_submit_loop_def initial_state_def)
qed

theorem C2_witness:
  "urlparse_hostname ref_lib ''http://127.0.0.1:9999/quiz'' = Inr (Some ''127.0.0.1'')
   \<and> solve_and_submit_loop 0 default_cfg ref_lib slow_world ''me@example.org'' ''s3cret''
        ''http://127.0.0.1:9999/quiz''
      = (Aborted, initial_state default_cfg slow_world ''http://127.0.0.1:9999/quiz'')
   \<and> trace (initial_state default_cfg slow_world ''http://127.0.0.1:9999/quiz'') = []"
proof -
  have h: "urlparse_hostname ref_lib ''http://127.0.0.1:9999/quiz'' = Inr (Some ''127.0.0.1'')"
    by (simp add: ref_lib_def ref_hostname_def py_lower_def lower_char_def)
  have l: "py_lower ''127.0.0.1'' \<in> {''localhost'', ''127.0.0.1'', ''::1''}
             \<or> endswith (py_lower ''127.0.0.1'') ''.local''"
    by (simp add: py_lower_def lower_char_def)
  from C2_localhost_start_aborts_before_any_call [OF h l] h show ?thesis
    by simp
qed

text \<open>
  Claim C3. Take an attempt that reaches the submission (the page opens and renders, the
  extraction raises nothing, a non-empty submit URL is found) and whose POST returns a
  response in which \<^verbatim>\<open>correct\<close> is not the boolean \<^verbatim>\<open>true\<close> (false, absent, of another type, or
  the response is not an object) and \<^verbatim>\<open>url\<close> is present and truthy. If a retry is left and
  more than 8 seconds remain before the deadline when the response has arrived, the
  attempt ends on the retry branch: \<^verbatim>\<open>current_url\<close> is unchanged, exactly one retry is
  consumed, the task is not marked answered, and the guard of the attempt loop still
  holds for the clock and the budget, so the same URL is rendered again. Otherwise the
  attempt sets \<^verbatim>\<open>current_url\<close> to the grader's next URL, marks the task answered and
  consumes no retry.
\<close>

theorem C3_unconfirmed_answer_with_next_url:
  assumes "new_page_result w = None" and "current_url s = PStr url" and "goto_result w = None"
    and "0 \<le> PAGE_RENDER_WAIT c"
    and "evaluate_page L w url = Inr (parsed_json, Some submit_url, answer_payload, gets)"
    and "submit_url \<noteq> []"
    and "submit_answer_json L (post_result w) = Inr resp_json"
    and "response_field resp_json ''correct'' \<noteq> PBool True"
    and "py_truthy (response_field resp_json ''url'')"
  shows "if 0 < retries_left s
            \<and> 8 < deadline s
                  - (now s + t_new_page w + t_goto w + PAGE_RENDER_WAIT c + t_eval w + t_post w)
         then fst (attempt c L w email secret s) = UnconfirmedRetry
              \<and> current_url (snd (attempt c L w email secret s)) = current_url s
              \<and> retries_left (snd (attempt c L w email secret s)) = retries_left s - 1
              \<and> answered (snd (attempt c L w email secret s)) = answered s
              \<and> now (snd (attempt c L w email secret s))
                   < deadline (snd (attempt c L w email secret s))
              \<and> 0 \<le> retries_left (snd (attempt c L w email secret s))
         else fst (attempt c L w email secret s) = UnconfirmedAdvance
              \<and> current_url (snd (attempt c L w email secret s)) = response_field resp_json ''url''
              \<and> retries_left (snd (attempt c L w email secret s)) = retries_left s
              \<and> answered (snd (attempt c L w email secret s))"
  using assms(7-9)
  by (simp add: attempt_submits [OF assms(1-6)] submit_step_def after_response_def Let_def
      effect_defs)

theorem C3_witness:
  "new_page_result rejected_attempt = None
   \<and> current_url (initial_state default_cfg slow_world ''https://x/q1'') = PStr ''https://x/q1''
   \<and> goto_result rejected_attempt = None
   \<and> 0 \<le> PAGE_RENDER_WAIT default_cfg
   \<and> evaluate_page ref_lib rejected_attempt ''https://x/q1''
        = Inr (PDict [(''answer'', PInt 42)], Some ''https://x/Submit'', PInt 42, [])
   \<and> submit_answer_json ref_lib (post_result rejected_attempt)
        = Inr (PDict [(''correct'', PBool False), (''url'', PStr ''https://x/q3'')])
   \<and> response_field (PDict [(''correct'', PBool False), (''url'', PStr ''https://x/q3'')]) ''correct''
        = PBool False
   \<and> response_field (PDict [(''correct'', PBool False), (''url'', PStr ''https://x/q3'')]) ''url''
        = PStr ''https://x/q3''
   \<and> fst (attempt default_cfg ref_lib rejected_attempt ''me@example.org'' ''s3cret''
            (initial_state default_cfg slow_world ''https://x/q1'')) = UnconfirmedRetry
   \<and> current_url (snd (attempt default_cfg ref_lib rejected_attempt ''me@example.org'' ''s3cret''
            (initial_state default_cfg slow_world ''https://x/q1''))) = PStr ''https://x/q1''
   \<and> retries_left (snd (attempt default_cfg ref_lib rejected_attempt ''me@example.org'' ''s3cret''
            (initial_state default_cfg slow_world ''https://x/q1''))) = 1
   \<and> fst (attempt default_cfg ref_lib rejected_attempt ''me@example.org'' ''s3cret''
            ((initial_state default_cfg slow_world ''https://x/q1'')\<lparr>retries_left := 0\<rparr>))
        = UnconfirmedAdvance
   \<and> current_url (snd (attempt default_cfg ref_lib rejected_attempt ''me@example.org'' ''s3cret''
            ((initial_state default_cfg slow_world ''https://x/q1'')\<lparr>retries_left := 0\<rparr>)))
        = PStr ''https://x/q3''"
proof -
  let ?s = "initial_state default_cfg slow_world ''https://x/q1''"
  let ?r = "PDict [(''correct'', PBool False), (''url'', PStr ''https://x/q3'')]"
  have a1: "new_page_result rejected_attempt = None" and a3: "goto_result rejected_attempt = None"
    by (simp_all add: rejected_attempt_def)
  have a2: "current_url ?s = PStr ''https://x/q1''"
    and a2': "current_url (?s\<lparr>retries_left := 0\<rparr>) = PStr ''https://x/q1''"
    by (simp_all add: initial_state_def)
  have a4: "0 \<le> PAGE_RENDER_WAIT default_cfg"
    by (simp add: default_cfg_def)
  have a5: "evaluate_page ref_lib rejected_attempt ''https://x/q1''
        = Inr (PDict [(''answer'', PInt 42)], Some ''https://x/Submit'', PInt 42, [])"
    by (simp add: extract_defs ref_defs text_defs)
  have a6: "''https://x/Submit'' \<noteq> []"
    by simp
  have a7: "submit_answer_json ref_lib (post_result rejected_attempt) = Inr ?r"
    by (simp add: submit_answer_json_def raise_for_status_def ref_defs)
  have a8: "response_field ?r ''correct'' \<noteq> PBool True"
    and a8': "response_field ?r ''correct'' = PBool False"
    by (simp_all add: response_field_def dict_get_def)
  have a9: "py_truthy (response_field ?r ''url'')"
    and a9': "response_field ?r ''url'' = PStr ''https://x/q3''"
    by (simp_all add: response_field_def dict_get_def)
  have t: "retries_left ?s = 2" "deadline ?s = 170" "now ?s = 0"
    "t_new_page rejected_attempt = 0" "t_goto rejected_attempt = 2"
    "t_eval rejected_attempt = 1" "t_post rejected_attempt = 0.2"
    "PAGE_RENDER_WAIT default_cfg = 0.8"
    by (simp_all add: initial_state_def default_cfg_def slow_world_def rejected_attempt_def)
  from C3_unconfirmed_answer_with_next_url [OF a1 a2 a3 a4 a5 a6 a7 a8 a9,
      of "''me@example.org''" "''s3cret''"]
    C3_unconfirmed_answer_with_next_url [OF a1 a2' a3 a4 a5 a6 a7 a8 a9,
      of "''me@example.org''" "''s3cret''"]
    a1 a2 a3 a4 a5 a7 a8' a9' t
  show ?thesis
    by simp
qed

text \<open>
  Claim C4. Take an attempt whose page renders and on which no submit URL is found (none,
  or an empty one), and let the fallback read the body text. If the first match of
  \<^verbatim>\<open>https?://[^\s'"<>]+\<close> in the leading 3000 characters equals the current URL, or if
  there is none,
  the attempt sets \<^verbatim>\<open>current_url\<close> to \<^verbatim>\<open>None\<close>, marks the task answered and closes the page
  without posting anything; from the state it leaves, the attempt loop and the task loop
  both end at their next guard, so the chain stops instead of visiting the URL again.
\<close>

theorem C4_fallback_never_revisits_current_url:
  assumes "new_page_result w = None" and "current_url s = PStr url" and "goto_result w = None"
    and "0 \<le> PAGE_RENDER_WAIT c"
    and "evaluate_page L w url = Inr (parsed_json, submit_url, answer_payload, gets)"
    and "submit_url = None \<or> submit_url = Some []"
    and "q_body_fallback (the_page w) = Inr body"
    and "search_url (take 3000 body) = Some url \<or> search_url (take 3000 body) = None"
  shows "fst (attempt c L w email secret s)
           = (if search_url (take 3000 body) = None then FallbackNone else FallbackSelfLoop)
         \<and> current_url (snd (attempt c L w email secret s)) = PNone
         \<and> answered (snd (attempt c L w email secret s))
         \<and> open_pages (snd (attempt c L w email secret s)) = open_pages s
         \<and> (\<forall>m t u b n. Post m t u b n \<in> set (trace (snd (attempt c L w email secret s)))
               \<longrightarrow> Post m t u b n \<in> set (trace s))
         \<and> attempt_loop (Suc k) c L W email secret (snd (attempt c L w email secret s))
             = Finished (snd (attempt c L w email secret s))
         \<and> task_loop (Suc k') c L W email secret (snd (attempt c L w email secret s))
             = Finished (snd (attempt c L w email secret s))"
  using assms(2,7,8)
  by (auto simp add: attempt_falls_back [OF assms(1-6)] fallback_next_def effect_defs)

theorem C4_witness:
  "new_page_result selfloop_attempt = None
   \<and> current_url (initial_state default_cfg slow_world ''https://x/q1'') = PStr ''https://x/q1''
   \<and> goto_result selfloop_attempt = None
   \<and> 0 \<le> PAGE_RENDER_WAIT default_cfg
   \<and> evaluate_page ref_lib selfloop_attempt ''https://x/q1''
        = Inr (PNone, None, PStr ''no-answer-found'', [])
   \<and> q_body_fallback (the_page selfloop_attempt) = Inr ''You are at https://x/q1 now''
   \<and> search_url (take 3000 ''You are at https://x/q1 now'') = Some ''https://x/q1''
   \<and> fst (attempt default_cfg ref_lib selfloop_attempt ''me@example.org'' ''s3cret''
            (initial_state default_cfg slow_world ''https://x/q1'')) = FallbackSelfLoop
   \<and> current_url (snd (attempt default_cfg ref_lib selfloop_attempt ''me@example.org'' ''s3cret''
            (initial_state default_cfg slow_world ''https://x/q1''))) = PNone
   \<and> task_loop (Suc 0) default_cfg ref_lib (\<lambda>n. selfloop_attempt) ''me@example.org'' ''s3cret''
        (snd (attempt default_cfg ref_lib selfloop_attempt ''me@example.org'' ''s3cret''
            (initial_state default_cfg slow_world ''https://x/q1'')))
      = Finished (snd (attempt default_cfg ref_lib selfloop_attempt ''me@example.org'' ''s3cret''
            (initial_state default_cfg slow_world ''https://x/q1'')))"
proof -
  let ?s = "initial_state default_cfg slow_world ''https://x/q1''"
  have a1: "new_page_result selfloop_attempt = None" and a3: "goto_result selfloop_attempt = None"
    by (simp_all add: selfloop_attempt_def)
  have a2: "current_url ?s = PStr ''https://x/q1''"
    by (simp add: initial_state_def)
  have a4: "0 \<le> PAGE_RENDER_WAIT default_cfg"
    by (simp add: default_cfg_def)
  have a5: "evaluate_page ref_lib selfloop_attempt ''https://x/q1''
        = Inr (PNone, None, PStr ''no-answer-found'', [])"
    by (simp add: extract_defs ref_defs text_defs)
  have a6: "(None :: string option) = None \<or> (None :: string option) = Some []"
    by simp
  have a7: "q_body_fallback (the_page selfloop_attempt) = Inr ''You are at https://x/q1 now''"
    by (simp add: selfloop_attempt_def selfloop_page_def)
  have a8': "search_url (take 3000 ''You are at https://x/q1 now'') = Some ''https://x/q1''"
    by (simp add: text_defs)
  then have a8: "search_url (take 3000 ''You are at https://x/q1 now'') = Some ''https://x/q1''
      \<or> search_url (take 3000 ''You are at https://x/q1 now'') = None"
    by simp
  from C4_fallback_never_revisits_current_url [OF a1 a2 a3 a4 a5 a6 a7 a8,
      of "''me@example.org''" "''s3cret''" 0 "\<lambda>n. selfloop_attempt" 0]
    a1 a2 a3 a4 a5 a7 a8'
  show ?thesis
    by simp
qed

text \<open>
  Claim C5, counterexample. On a page whose parsed document is \<^verbatim>\<open>{"answer": null}\<close> and
  whose text is \<^verbatim>\<open>The result is 17 items\<close>, the rule that the first non-null result wins
  gives the integer 17 of the textual fallback; \<^verbatim>\<open>compute_answer_from_page\<close> returns
  \<^verbatim>\<open>None\<close>. The structured strategy tests whether the field is present, not whether its
  value is null.
\<close>

theorem C5_null_answer_counterexample:
  "spec_structured_answer (PDict [(''answer'', PNone)]) = Some PNone
   \<and> spec_textual_fallback ref_lib quiz_page = Inr (PInt 17)
   \<and> spec_first_non_null_answer ref_lib (\<lambda>url. ConnectionFailed) quiz_page
        (PDict [(''answer'', PNone)]) = Inr (PInt 17)
   \<and> compute_answer_from_page ref_lib (\<lambda>url. ConnectionFailed) quiz_page
        (PDict [(''answer'', PNone)]) = (Inr PNone, [])"
  by (simp add: spec_first_non_null_answer_def non_null_def spec_structured_answer_def
      spec_linked_file_answer_def spec_textual_fallback_def compute_answer_from_page_def
      text_answer_def quiz_page_def text_defs ref_lib_def)

text \<open>
  Claim C5, as amended. What \<^verbatim>\<open>compute_answer_from_page\<close> returns is the result of the
  first strategy that yields one, in the order structured answer, linked PDF file (the
  \<^verbatim>\<open>url\<close> of the parsed object first, the hyperlinks of the page after it), textual
  fallback, where the structured strategy yields the value of the \<^verbatim>\<open>answer\<close> field whenever
  the parsed document is an object that has the field: that value is returned as it is,
  also when it is \<^verbatim>\<open>null\<close>, without a download, whatever the links and the text of the page
  are. So the first non-null result wins on every document whose \<^verbatim>\<open>answer\<close> field is not
  \<^verbatim>\<open>null\<close>. The call raises only in the textual fallback, when the first numeric token of
  the text is an integer with more digits than \<^verbatim>\<open>int\<close> accepts, as on a text of \<open>n\<close> digits
  with \<open>n\<close> above that limit.
\<close>

theorem C5_extractor_priority:
  "spec_first_result
     [map_option Inr (spec_structured_answer parsed_json),
      map_option Inr (spec_linked_file_answer L fetch page parsed_json),
      Some (spec_textual_fallback L page)]
     = Some (fst (compute_answer_from_page L fetch page parsed_json))
   \<and> (parsed_json = PDict d \<and> map_of d ''answer'' = Some a
        \<longrightarrow> compute_answer_from_page L fetch page parsed_json = (Inr a, []))
   \<and> (spec_structured_answer parsed_json \<noteq> Some PNone
        \<longrightarrow> fst (compute_answer_from_page L fetch page parsed_json)
              = spec_first_non_null_answer L fetch page parsed_json)
   \<and> (fst (compute_answer_from_page L fetch page parsed_json) = Inl e
        \<longrightarrow> spec_textual_fallback L page = Inl e \<and> e = OtherException
            \<and> 0 < int_max_str_digits L)
   \<and> (0 < int_max_str_digits L \<and> int_max_str_digits L < n
        \<and> q_body_answer page = Inr (replicate n (CHR ''1''))
        \<longrightarrow> spec_textual_fallback L page = Inl OtherException)"
proof -
  let ?r = "fst (compute_answer_from_page L fetch page parsed_json)"
  have first: "spec_first_result
     [map_option Inr (spec_structured_answer parsed_json),
      map_option Inr (spec_linked_file_answer L fetch page parsed_json),
      Some (spec_textual_fallback L page)] = Some ?r"
  proof (cases parsed_json)
    case (PDict d)
    then show ?thesis
      by (simp add: compute_answer_from_page_def spec_structured_answer_def
          spec_linked_file_answer_def page_answer_spec case_prod_beta
          split: option.splits pyval.splits sum.splits)
  qed (simp_all add: compute_answer_from_page_def spec_structured_answer_def
      spec_linked_file_answer_def page_answer_spec split: option.splits sum.splits)
  have linked: "spec_linked_file_answer L fetch page parsed_json \<noteq> Some PNone"
    by (simp add: spec_linked_file_answer_def Let_def)
  have non_null: "?r = spec_first_non_null_answer L fetch page parsed_json"
    if "spec_structured_answer parsed_json \<noteq> Some PNone"
    using first that linked
    by (cases "spec_structured_answer parsed_json";
        cases "spec_linked_file_answer L fetch page parsed_json")
      (auto simp add: spec_first_non_null_answer_def non_null_def)
  have raises: "spec_textual_fallback L page = Inl e \<and> e = OtherException
      \<and> 0 < int_max_str_digits L" if "?r = Inl e"
  proof -
    from first that have t: "spec_textual_fallback L page = Inl e"
      by (cases "spec_structured_answer parsed_json";
          cases "spec_linked_file_answer L fetch page parsed_json") auto
    then show ?thesis
      by (auto simp add: spec_textual_fallback_def text_answer_def py_int_def int_token_def
          unsigned_def split: option.splits if_splits list.splits)
  qed
  have digits: "spec_textual_fallback L page = Inl OtherException"
    if "0 < int_max_str_digits L \<and> int_max_str_digits L < n
        \<and> q_body_answer page = Inr (replicate n (CHR ''1''))"
  proof -
    from that obtain m where n: "n = Suc m"
      by (cases n) auto
    have d: "is_digit (CHR ''1'')"
      by (simp add: is_digit_def digit_of_def)
    then have tw: "takeWhile is_digit (replicate k (CHR ''1'')) = replicate k (CHR ''1'')" for k
      by (simp add: takeWhile_eq_all_conv)
    have "number_at (replicate n (CHR ''1'')) = Some (replicate n (CHR ''1''))"
      unfolding n using d tw [of m] by (simp add: number_at_def Let_def)
    then have "search_number (replicate n (CHR ''1'')) = Some (replicate n (CHR ''1''))"
      unfolding n by simp
    moreover have "unsigned (replicate n (CHR ''1'')) = replicate n (CHR ''1'')"
      unfolding n by (simp add: unsigned_def)
    moreover have "list_all is_digit (replicate n (CHR ''1''))"
      using d by (simp add: list_all_iff)
    ultimately show ?thesis
      using that n
      by (simp add: spec_textual_fallback_def text_answer_def int_token_def py_int_def)
  qed
  show ?thesis
  proof (intro conjI impI)
    show "compute_answer_from_page L fetch page parsed_json = (Inr a, [])"
      if "parsed_json = PDict d \<and> map_of d ''answer'' = Some a"
      using that by (simp add: compute_answer_from_page_def)
  qed (use first non_null raises digits in blast)+
qed

theorem C5_witness:
  "map_of [(''answer'', PInt 42)] ''answer'' = Some (PInt 42)
   \<and> spec_structured_answer (PDict [(''answer'', PInt 42)]) = Some (PInt 42)
   \<and> spec_textual_fallback ref_lib quiz_page = Inr (PInt 17)
   \<and> compute_answer_from_page ref_lib (\<lambda>url. ConnectionFailed) quiz_page
        (PDict [(''answer'', PInt 42)]) = (Inr (PInt 42), [])
   \<and> spec_first_non_null_answer ref_lib (\<lambda>url. ConnectionFailed) quiz_page
        (PDict [(''answer'', PInt 42)]) = Inr (PInt 42)
   \<and> spec_structured_answer PNone = None
   \<and> fst (compute_answer_from_page ref_lib (\<lambda>url. ConnectionFailed) quiz_page PNone)
        = Inr (PInt 17)
   \<and> 0 < int_max_str_digits ref_lib \<and> int_max_str_digits ref_lib < 4301
   \<and> q_body_answer (quiz_page\<lparr>q_body_answer := Inr (replicate 4301 (CHR ''1''))\<rparr>)
        = Inr (replicate 4301 (CHR ''1''))
   \<and> fst (compute_answer_from_page ref_lib (\<lambda>url. ConnectionFailed)
            (quiz_page\<lparr>q_body_answer := Inr (replicate 4301 (CHR ''1''))\<rparr>) PNone)
        = Inl OtherException"
proof -
  let ?f = "\<lambda>url :: string. ConnectionFailed"
  let ?p = "quiz_page\<lparr>q_body_answer := Inr (replicate 4301 (CHR ''1''))\<rparr>"
  have t: "spec_textual_fallback ref_lib quiz_page = Inr (PInt 17)"
    by (simp add: spec_textual_fallback_def text_answer_def quiz_page_def text_defs ref_lib_def)
  have s: "spec_structured_answer (PDict [(''answer'', PInt 42)]) = Some (PInt 42)"
    and s': "spec_structured_answer PNone = None"
    by (simp_all add: spec_structured_answer_def)
  have l: "spec_linked_file_answer ref_lib ?f quiz_page PNone = None"
    and l': "spec_linked_file_answer ref_lib ?f ?p PNone = None"
    by (simp_all add: spec_linked_file_answer_def quiz_page_def text_defs)
  have m: "0 < int_max_str_digits ref_lib \<and> int_max_str_digits ref_lib < 4301"
    by (simp add: ref_lib_def)
  have q: "q_body_answer ?p = Inr (replicate 4301 (CHR ''1''))"
    by simp
  note A = C5_extractor_priority [of "PDict [(''answer'', PInt 42)]" ref_lib ?f quiz_page
      "[(''answer'', PInt 42)]" "PInt 42"]
  note B = C5_extractor_priority [of PNone ref_lib ?f quiz_page]
  note C = C5_extractor_priority [of PNone ref_lib ?f ?p _ _ _ 4301]
  from A have a1: "compute_answer_from_page ref_lib ?f quiz_page (PDict [(''answer'', PInt 42)])
      = (Inr (PInt 42), [])"
    by simp
  from A s a1
  have a2: "spec_first_non_null_answer ref_lib ?f quiz_page (PDict [(''answer'', PInt 42)])
      = Inr (PInt 42)"
    by simp
  from B have "spec_first_result
     [map_option Inr (spec_structured_answer PNone),
      map_option Inr (spec_linked_file_answer ref_lib ?f quiz_page PNone),
      Some (spec_textual_fallback ref_lib quiz_page)]
     = Some (fst (compute_answer_from_page ref_lib ?f quiz_page PNone))"
    by (rule conjunct1)
  with s' l t have b: "fst (compute_answer_from_page ref_lib ?f quiz_page PNone) = Inr (PInt 17)"
    by simp
  from C m q have c1: "spec_textual_fallback ref_lib ?p = Inl OtherException"
    by blast
  from C have "spec_first_result
     [map_option Inr (spec_structured_answer PNone),
      map_option Inr (spec_linked_file_answer ref_lib ?f ?p PNone),
      Some (spec_textual_fallback ref_lib ?p)]
     = Some (fst (compute_answer_from_page ref_lib ?f ?p PNone))"
    by (rule conjunct1)
  with s' l' c1 have c2: "fst (compute_answer_from_page ref_lib ?f ?p PNone) = Inl OtherException"
    by simp
  from t s s' m q a1 a2 b c2 show ?thesis
    by simp
qed

text \<open>
  Claim C6, counterexample. \<^verbatim>\<open>pdfplumber.open\<close> and the two uses of \<^verbatim>\<open>pdf.pages\<close> stand
  outside the \<^verbatim>\<open>try\<close> of \<^verbatim>\<open>sum_values_on_pdf_page2\<close>: on a byte string that is not a PDF the
  first raises, on a document whose page tree cannot be read the second does, and so does
  the function. (Both callers wrap the call in a \<^verbatim>\<open>try\<close> of their own.)
\<close>

theorem C6_unopenable_pdf_counterexample:
  "pdf_open ref_lib ''not a PDF'' = Inl OtherException
   \<and> sum_values_on_pdf_page2 ref_lib ''not a PDF'' ''value'' = Inl OtherException
   \<and> pdf_open ref_lib ''%PDF broken page tree'' = Inr (Inl OtherException)
   \<and> sum_values_on_pdf_page2 ref_lib ''%PDF broken page tree'' ''value'' = Inl OtherException"
  by (simp add: sum_values_on_pdf_page2_def ref_lib_def ref_pdf_def)

text \<open>
  Claim C6, as amended. The function raises exactly when the document cannot be opened
  or its list of pages cannot be built, with the exception of that call. Otherwise it
  returns \<^verbatim>\<open>None\<close> when the document has fewer than two pages; with two or more it looks
  at the page of index 1 only, and returns \<^verbatim>\<open>None\<close> when that page yields no table (the
  extraction raises, or gives \<^verbatim>\<open>None\<close> or an empty table) or when no header equals the
  column name once both are lowercased (a header that is \<^verbatim>\<open>None\<close> or empty counts as the
  empty string); otherwise it takes the first such column and returns the float that the
  row loop leaves: starting from \<^verbatim>\<open>0.0\<close>, the rows after the header are visited from the
  top, and each cell of the column that \<^verbatim>\<open>float\<close> accepts once commas are removed and
  whitespace is stripped is added to the running sum by one float addition, a row without
  such a cell adding nothing. (The result is that left-to-right float sum, which float
  rounding, an overflow, or a cell such as \<^verbatim>\<open>nan\<close> or \<^verbatim>\<open>inf\<close> can set apart from the sum of
  the numbers.)
\<close>

theorem C6_sum_values_on_pdf_page2:
  "(sum_values_on_pdf_page2 L pdf_bytes column_name = Inl e
      \<longleftrightarrow> pdf_open L pdf_bytes = Inl e \<or> pdf_open L pdf_bytes = Inr (Inl e))
   \<and> (pdf_open L pdf_bytes = Inr (Inr pages) \<longrightarrow>
        (length pages < 2 \<longrightarrow> sum_values_on_pdf_page2 L pdf_bytes column_name = Inr None)
        \<and> (2 \<le> length pages \<longrightarrow>
             (pages ! 1 \<in> {Inl e', Inr None, Inr (Some [])} \<longrightarrow>
                sum_values_on_pdf_page2 L pdf_bytes column_name = Inr None)
             \<and> (pages ! 1 = Inr (Some (headers # rows)) \<longrightarrow>
                  (py_lower column_name
                     \<notin> set (map (\<lambda>h. py_lower (case h of None \<Rightarrow> [] | Some x \<Rightarrow> x)) headers) \<longrightarrow>
                     sum_values_on_pdf_page2 L pdf_bytes column_name = Inr None)
                  \<and> (idx < length headers
                       \<and> py_lower (case headers ! idx of None \<Rightarrow> [] | Some x \<Rightarrow> x)
                           = py_lower column_name
                       \<and> (\<forall>j<idx. py_lower (case headers ! j of None \<Rightarrow> [] | Some x \<Rightarrow> x)
                                    \<noteq> py_lower column_name) \<longrightarrow>
                     sum_values_on_pdf_page2 L pdf_bytes column_name
                       = Inr (Some (foldl (float_add L) (Finite 0)
                           (List.map_filter
                              (\<lambda>row. case (if idx < length row then row ! idx else None) of
                                        None \<Rightarrow> None
                                      | Some v \<Rightarrow>
                                          py_float L (py_strip (filter (\<lambda>c. c \<noteq> CHR '','') v)))
                              rows)))))))"
proof -
  let ?names = "map (\<lambda>h. case h of None \<Rightarrow> [] | Some x \<Rightarrow> py_lower x) headers"
  let ?cell = "\<lambda>row. case (if idx < length row then row ! idx else None) of
                        None \<Rightarrow> None
                      | Some v \<Rightarrow> py_float L (py_strip (filter (\<lambda>c. c \<noteq> CHR '','') v))"
  have names: "?names = map (\<lambda>h. py_lower (case h of None \<Rightarrow> [] | Some x \<Rightarrow> x)) headers"
    by (simp add: py_lower_def split: option.splits)
  have cell: "cell_value L idx = ?cell"
    by (rule ext) (simp add: cell_value_def split: option.splits)
  have none: "sum_values_on_pdf_page2 L pdf_bytes column_name = Inr None"
    if "pdf_open L pdf_bytes = Inr (Inr pages)" "2 \<le> length pages"
      "pages ! 1 = Inr (Some (headers # rows))"
      "py_lower column_name
         \<notin> set (map (\<lambda>h. py_lower (case h of None \<Rightarrow> [] | Some x \<Rightarrow> x)) headers)"
  proof -
    from that(4) have "index_of (py_lower column_name) ?names = None"
      unfolding names by (simp only: index_of_None not_False_eq_True)
    with that(1-3) show ?thesis
      by (simp add: sum_values_on_pdf_page2_def)
  qed
  have some: "sum_values_on_pdf_page2 L pdf_bytes column_name
      = Inr (Some (foldl (float_add L) (Finite 0) (List.map_filter ?cell rows)))"
    if "pdf_open L pdf_bytes = Inr (Inr pages)" "2 \<le> length pages"
      "pages ! 1 = Inr (Some (headers # rows))"
      "idx < length headers
         \<and> py_lower (case headers ! idx of None \<Rightarrow> [] | Some x \<Rightarrow> x) = py_lower column_name
         \<and> (\<forall>j<idx. py_lower (case headers ! j of None \<Rightarrow> [] | Some x \<Rightarrow> x)
                      \<noteq> py_lower column_name)"
  proof -
    from that(4) have "index_of (py_lower column_name) ?names = Some idx"
      unfolding names by (intro index_of_first) simp_all
    with that(1-3) show ?thesis
      by (simp add: sum_values_on_pdf_page2_def sum_column_foldl cell)
  qed
  show ?thesis
  proof (intro conjI impI)
    show "sum_values_on_pdf_page2 L pdf_bytes column_name = Inl e
      \<longleftrightarrow> pdf_open L pdf_bytes = Inl e \<or> pdf_open L pdf_bytes = Inr (Inl e)"
      by (simp add: sum_values_on_pdf_page2_def Let_def
          split: sum.splits option.splits list.splits)
    show "sum_values_on_pdf_page2 L pdf_bytes column_name = Inr None"
      if "pdf_open L pdf_bytes = Inr (Inr pages)" "length pages < 2"
      using that by (simp add: sum_values_on_pdf_page2_def)
    show "sum_values_on_pdf_page2 L pdf_bytes column_name = Inr None"
      if "pdf_open L pdf_bytes = Inr (Inr pages)" "2 \<le> length pages"
        "pages ! 1 \<in> {Inl e', Inr None, Inr (Some [])}"
      using that by (auto simp add: sum_values_on_pdf_page2_def)
  qed (use none some in blast)+
qed

theorem C6_witness:
  "pdf_open ref_lib ''%PDF two pages'' = Inr (Inr [Inr None, Inr (Some ref_table)])
   \<and> [Inr None, Inr (Some ref_table)] ! 1 = Inr (Some (hd ref_table # tl ref_table))
   \<and> py_lower (case hd ref_table ! 2 of None \<Rightarrow> [] | Some x \<Rightarrow> x) = py_lower ''Value''
   \<and> sum_values_on_pdf_page2 ref_lib ''%PDF two pages'' ''Value'' = Inr (Some (Finite 1203.5))
   \<and> py_lower ''Total'' \<noteq> py_lower ''Name'' \<and> py_lower ''Total'' \<noteq> py_lower ''VALUE''
   \<and> sum_values_on_pdf_page2 ref_lib ''%PDF two pages'' ''Total'' = Inr None
   \<and> pdf_open ref_lib ''%PDF one page'' = Inr (Inr [Inr (Some ref_table)])
   \<and> sum_values_on_pdf_page2 ref_lib ''%PDF one page'' ''Value'' = Inr None
   \<and> pdf_open ref_lib ''%PDF broken page tree'' = Inr (Inl OtherException)
   \<and> sum_values_on_pdf_page2 ref_lib ''%PDF broken page tree'' ''Value'' = Inl OtherException"
proof -
  have o: "pdf_open ref_lib ''%PDF two pages'' = Inr (Inr [Inr None, Inr (Some ref_table)])"
    and o1: "pdf_open ref_lib ''%PDF one page'' = Inr (Inr [Inr (Some ref_table)])"
    and o2: "pdf_open ref_lib ''%PDF broken page tree'' = Inr (Inl OtherException)"
    by (simp_all add: ref_lib_def ref_pdf_def)
  have p: "[Inr None, Inr (Some ref_table)] ! 1 = Inr (Some (hd ref_table # tl ref_table))"
    by (simp add: ref_table_def)
  have h: "(2::nat) < length (hd ref_table)
      \<and> py_lower (case hd ref_table ! 2 of None \<Rightarrow> [] | Some x \<Rightarrow> x) = py_lower ''Value''
      \<and> (\<forall>j<2. py_lower (case hd ref_table ! j of None \<Rightarrow> [] | Some x \<Rightarrow> x) \<noteq> py_lower ''Value'')"
    by (simp add: ref_table_def py_lower_def lower_char_def less_Suc_eq numeral_2_eq_2)
  have n: "py_lower ''Total'' \<noteq> py_lower ''Name'' \<and> py_lower ''Total'' \<noteq> py_lower ''VALUE''"
    by (simp add: py_lower_def lower_char_def)
  then have n': "py_lower ''Total''
      \<notin> set (map (\<lambda>h. py_lower (case h of None \<Rightarrow> [] | Some x \<Rightarrow> x)) (hd ref_table))"
    by (simp add: ref_table_def py_lower_def)
  have v: "foldl (float_add ref_lib) (Finite 0)
       (List.map_filter
          (\<lambda>row. case (if 2 < length row then row ! 2 else None) of
                    None \<Rightarrow> None
                  | Some v \<Rightarrow> py_float ref_lib (py_strip (filter (\<lambda>c. c \<noteq> CHR '','') v)))
          (tl ref_table)) = Finite 1203.5"
    by (simp add: ref_table_def ref_lib_def ref_float_add_def py_strip_def is_space_def
        map_filter_simps)
  from C6_sum_values_on_pdf_page2 [of ref_lib "''%PDF two pages''" "''Value''" _
      "[Inr None, Inr (Some ref_table)]" _ "hd ref_table" "tl ref_table" 2] o p h v
  have 1: "sum_values_on_pdf_page2 ref_lib ''%PDF two pages'' ''Value'' = Inr (Some (Finite 1203.5))"
    by simp
  from C6_sum_values_on_pdf_page2 [of ref_lib "''%PDF two pages''" "''Total''" _
      "[Inr None, Inr (Some ref_table)]" _ "hd ref_table" "tl ref_table"] o p n'
  have 2: "sum_values_on_pdf_page2 ref_lib ''%PDF two pages'' ''Total'' = Inr None"
    by simp
  from C6_sum_values_on_pdf_page2 [of ref_lib "''%PDF one page''" "''Value''" _
      "[Inr (Some ref_table)]"] o1
  have 3: "sum_values_on_pdf_page2 ref_lib ''%PDF one page'' ''Value'' = Inr None"
    by simp
  from C6_sum_values_on_pdf_page2 [of ref_lib "''%PDF broken page tree''" "''Value''" OtherException]
    o2
  have 4: "sum_values_on_pdf_page2 ref_lib ''%PDF broken page tree'' ''Value'' = Inl OtherException"
    by simp
  from o o1 o2 p h n 1 2 3 4 show ?thesis
    by simp
qed

text \<open>
  Claim C7, counterexample. A POST answered with \<^verbatim>\<open>304 Not Modified\<close> and an empty body has
  no success status, yet \<^verbatim>\<open>raise_for_status\<close> raises on the codes 400 to 599 only:
  \<^verbatim>\<open>submit_answer_json\<close> returns \<^verbatim>\<open>{"non_json_response": ""}\<close>, and the solver reads it as a
  response of the grader. With no retry left the attempt ends the chain (\<^verbatim>\<open>current_url\<close>
  becomes \<^verbatim>\<open>None\<close>, the task is marked answered) and no failure is handled.
\<close>

theorem C7_not_modified_counterexample:
  "\<not> spec_success_status 304
   \<and> submit_answer_json ref_lib (Response 304 []) = Inr (PDict [(''non_json_response'', PStr [])])
   \<and> fst (attempt default_cfg ref_lib not_modified_attempt ''me@example.org'' ''s3cret''
            ((initial_state default_cfg slow_world ''https://x/q1'')\<lparr>retries_left := 0\<rparr>))
        = NoUrlFinish
   \<and> current_url (snd (attempt default_cfg ref_lib not_modified_attempt ''me@example.org''
            ''s3cret'' ((initial_state default_cfg slow_world ''https://x/q1'')\<lparr>retries_left := 0\<rparr>)))
        = PNone
   \<and> answered (snd (attempt default_cfg ref_lib not_modified_attempt ''me@example.org''
            ''s3cret'' ((initial_state default_cfg slow_world ''https://x/q1'')\<lparr>retries_left := 0\<rparr>)))
   \<and> retries_left (snd (attempt default_cfg ref_lib not_modified_attempt ''me@example.org''
            ''s3cret'' ((initial_state default_cfg slow_world ''https://x/q1'')\<lparr>retries_left := 0\<rparr>)))
        = 0"
  by (simp add: spec_success_status_def ref_defs text_defs extract_defs step_defs
      initial_state_def)

text \<open>
  Claim C7, as amended. \<^verbatim>\<open>submit_answer_json\<close> posts the submission record (email, secret,
  the task's URL, the answer) as the JSON body of one POST with the timeout
  \<^verbatim>\<open>SUBMIT_TIMEOUT\<close>. It raises exactly when the POST gets no response or is answered with
  a status from 400 to 599, and then a \<^verbatim>\<open>RequestException\<close> and nothing else; the solver
  answers that on the branch of the failed submission: one retry consumed, the page
  closed, a pause of half a second, and the loop goes on. With any other status, a
  success status or not, the call returns a value: the parsed body, or
  \<^verbatim>\<open>{"non_json_response": text}\<close> when the body is not JSON; in particular it raises on no
  success status.
\<close>

theorem C7_submission_failures_are_recoverable:
  "(submit_answer_json L r = Inl e
      \<longleftrightarrow> e = RequestException
          \<and> (case r of
                ConnectionFailed \<Rightarrow> True
              | Response status text \<Rightarrow> 400 \<le> status \<and> status < 600))
   \<and> (\<not> (400 \<le> status \<and> status < 600) \<longrightarrow>
        submit_answer_json L (Response status text)
          = Inr (case json_loads L text of
                   Some v \<Rightarrow> v
                 | None \<Rightarrow> PDict [(''non_json_response'', PStr text)]))
   \<and> (spec_success_status status \<longrightarrow> \<not> isl (submit_answer_json L (Response status text)))
   \<and> (submit_answer_json L (post_result w) = Inl e \<longrightarrow>
        submit_step c L w email secret submit_url answer_payload s
          = (SubmitFailed,
             s\<lparr>now := now s + t_post w + 0.5,
                retries_left := retries_left s - 1,
                open_pages := open_pages s - 1,
                trace := trace s @
                  [Post (attempts s) (now s) submit_url
                     (PDict [(''email'', PStr email), (''secret'', PStr secret),
                             (''url'', current_url s), (''answer'', answer_payload)])
                     (SUBMIT_TIMEOUT c),
                   ClosePage, Sleep 0.5]\<rparr>))
   \<and> (\<exists>es. trace (snd (submit_step c L w email secret submit_url answer_payload s))
          = trace s @
              Post (attempts s) (now s) submit_url
                (PDict [(''email'', PStr email), (''secret'', PStr secret),
                        (''url'', current_url s), (''answer'', answer_payload)])
                (SUBMIT_TIMEOUT c) # es)"
proof (intro conjI impI)
  show "submit_answer_json L r = Inl e
      \<longleftrightarrow> e = RequestException
          \<and> (case r of
                ConnectionFailed \<Rightarrow> True
              | Response status text \<Rightarrow> 400 \<le> status \<and> status < 600)"
    by (auto simp add: submit_answer_json_def raise_for_status_def
        split: http_result.splits option.splits)
  show "submit_answer_json L (Response status text)
          = Inr (case json_loads L text of
                   Some v \<Rightarrow> v
                 | None \<Rightarrow> PDict [(''non_json_response'', PStr text)])"
    if "\<not> (400 \<le> status \<and> status < 600)"
    using that by (simp add: submit_answer_json_def raise_for_status_def split: option.splits)
  show "\<not> isl (submit_answer_json L (Response status text))" if "spec_success_status status"
    using that
    by (simp add: submit_answer_json_def raise_for_status_def spec_success_status_def
        split: option.splits)
  show "submit_step c L w email secret submit_url answer_payload s
          = (SubmitFailed,
             s\<lparr>now := now s + t_post w + 0.5,
                retries_left := retries_left s - 1,
                open_pages := open_pages s - 1,
                trace := trace s @
                  [Post (attempts s) (now s) submit_url
                     (PDict [(''email'', PStr email), (''secret'', PStr secret),
                             (''url'', current_url s), (''answer'', answer_payload)])
                     (SUBMIT_TIMEOUT c),
                   ClosePage, Sleep 0.5]\<rparr>)"
    if "submit_answer_json L (post_result w) = Inl e"
    using that submit_answer_json_exn [OF that]
    by (simp add: submit_step_def Let_def effect_defs)
  show "\<exists>es. trace (snd (submit_step c L w email secret submit_url answer_payload s))
          = trace s @
              Post (attempts s) (now s) submit_url
                (PDict [(''email'', PStr email), (''secret'', PStr secret),
                        (''url'', current_url s), (''answer'', answer_payload)])
                (SUBMIT_TIMEOUT c) # es"
    by (simp add: submit_step_def Let_def after_response_def on_exception_def effect_defs
        split: sum.splits)
qed

theorem C7_witness:
  "submit_answer_json ref_lib (Response 503 ''Service Unavailable'') = Inl RequestException
   \<and> submit_answer_json ref_lib ConnectionFailed = Inl RequestException
   \<and> spec_success_status 200
   \<and> \<not> isl (submit_answer_json ref_lib (Response 200 ''<html>ok</html>''))
   \<and> json_loads ref_lib ''<html>ok</html>'' = None
   \<and> submit_answer_json ref_lib (Response 200 ''<html>ok</html>'')
        = Inr (PDict [(''non_json_response'', PStr ''<html>ok</html>'')])
   \<and> submit_answer_json ref_lib (post_result unavailable_attempt) = Inl RequestException
   \<and> fst (submit_step default_cfg ref_lib unavailable_attempt
            ''me@example.org'' ''s3cret'' ''https://x/Submit'' (PInt 42)
            (initial_state default_cfg slow_world ''https://x/q1'')) = SubmitFailed
   \<and> retries_left (snd (submit_step default_cfg ref_lib unavailable_attempt
            ''me@example.org'' ''s3cret'' ''https://x/Submit'' (PInt 42)
            (initial_state default_cfg slow_world ''https://x/q1''))) = 1"
proof -
  let ?s = "initial_state default_cfg slow_world ''https://x/q1''"
  have ok: "spec_success_status 200"
    by (simp add: spec_success_status_def)
  have j: "json_loads ref_lib ''<html>ok</html>'' = None"
    by (simp add: ref_lib_def ref_json_def doc_answer_def resp_right_def resp_wrong_def quoted_def)
  have u: "post_result unavailable_attempt = Response 503 ''Service Unavailable''"
    by (simp add: unavailable_attempt_def)
  have r: "retries_left ?s = 2"
    by (simp add: initial_state_def default_cfg_def)
  note A = C7_submission_failures_are_recoverable
  from A [of ref_lib "Response 503 ''Service Unavailable''" RequestException]
  have 1: "submit_answer_json ref_lib (Response 503 ''Service Unavailable'') = Inl RequestException"
    by simp
  from A [of ref_lib ConnectionFailed RequestException]
  have 2: "submit_answer_json ref_lib ConnectionFailed = Inl RequestException"
    by simp
  from A [of ref_lib _ _ 200 "''<html>ok</html>''"] ok j
  have 3: "\<not> isl (submit_answer_json ref_lib (Response 200 ''<html>ok</html>''))"
    and 4: "submit_answer_json ref_lib (Response 200 ''<html>ok</html>'')
        = Inr (PDict [(''non_json_response'', PStr ''<html>ok</html>'')])"
    by simp_all
  from 1 u have 5: "submit_answer_json ref_lib (post_result unavailable_attempt)
      = Inl RequestException"
    by simp
  from A [of ref_lib _ RequestException _ _ unavailable_attempt default_cfg "''me@example.org''"
      "''s3cret''" "''https://x/Submit''" "PInt 42" ?s] 5
  have 6: "submit_step default_cfg ref_lib unavailable_attempt
            ''me@example.org'' ''s3cret'' ''https://x/Submit'' (PInt 42) ?s
      = (SubmitFailed,
         ?s\<lparr>now := now ?s + t_post unavailable_attempt + 0.5,
            retries_left := retries_left ?s - 1,
            open_pages := open_pages ?s - 1,
            trace := trace ?s @
              [Post (attempts ?s) (now ?s) ''https://x/Submit''
                 (PDict [(''email'', PStr ''me@example.org''), (''secret'', PStr ''s3cret''),
                         (''url'', current_url ?s), (''answer'', PInt 42)])
                 (SUBMIT_TIMEOUT default_cfg),
               ClosePage, Sleep 0.5]\<rparr>)"
    by blast
  from ok j 1 2 3 4 5 r show ?thesis
    by (simp add: 6)
qed

text \<open>
  Claim C8. One pass through the attempt body lowers the retry budget by exactly one when
  the attempt meets a recoverable failure (the page does not render: opening it, the
  navigation, the settle delay, the extraction or the fallback read of the body raises;
  or the POST of the answer fails) or when, after a response that does not confirm the
  answer, a retry is left and more than 8 seconds remain; it leaves the budget unchanged
  in every other case. These cases exclude one another, and they are the ones on which
  the body leaves by the branches of the render timeout and the render exception, of the
  failed submission, and of the two retries, respectively. The body runs only while the
  budget is not negative (with a negative budget the attempt loop ends without an
  attempt), so a pass ends with a budget of at least \<open>-1\<close>, the value at which the loop
  stops. Hence at every point of every run the budget is at least \<open>-1\<close>, or at least the
  configured \<^verbatim>\<open>PER_QUESTION_RETRIES\<close> should that be configured below \<open>-1\<close>.
\<close>

theorem C8_retry_budget:
  "retries_left (snd (attempt c L w email secret s))
     = retries_left s
       - (if spec_render_failure c L w s \<or> spec_submission_failure c L w s
             \<or> spec_unconfirmed_retry c L w s then 1 else 0)
   \<and> \<not> (spec_render_failure c L w s \<and> spec_submission_failure c L w s)
   \<and> \<not> (spec_render_failure c L w s \<and> spec_unconfirmed_retry c L w s)
   \<and> \<not> (spec_submission_failure c L w s \<and> spec_unconfirmed_retry c L w s)
   \<and> (fst (attempt c L w email secret s) \<in> {RenderTimeout, PageException}
        \<longleftrightarrow> spec_render_failure c L w s)
   \<and> (fst (attempt c L w email secret s) = SubmitFailed \<longleftrightarrow> spec_submission_failure c L w s)
   \<and> (fst (attempt c L w email secret s) \<in> {UnconfirmedRetry, NoUrlRetry}
        \<longleftrightarrow> spec_unconfirmed_retry c L w s)
   \<and> (0 \<le> retries_left s \<longrightarrow> - 1 \<le> retries_left (snd (attempt c L w email secret s)))
   \<and> (retries_left s < 0 \<longrightarrow> attempt_loop (Suc k) c L W' email secret s = Finished s)
   \<and> min (- 1) (PER_QUESTION_RETRIES c)
        \<le> retries_left (snd (solve_and_submit_loop fuel c L W email secret start_url))
   \<and> (- 1 \<le> PER_QUESTION_RETRIES c \<longrightarrow>
        - 1 \<le> retries_left (snd (solve_and_submit_loop fuel c L W email secret start_url)))"
proof (intro conjI impI)
  show cost: "retries_left (snd (attempt c L w email secret s))
     = retries_left s
       - (if spec_render_failure c L w s \<or> spec_submission_failure c L w s
             \<or> spec_unconfirmed_retry c L w s then 1 else 0)"
    by (rule attempt_cost)
  show "\<not> (spec_render_failure c L w s \<and> spec_submission_failure c L w s)"
    using attempt_cost(2,3) [of c L w email secret s] by auto
  show "\<not> (spec_render_failure c L w s \<and> spec_unconfirmed_retry c L w s)"
    using attempt_cost(2,4) [of c L w email secret s] by auto
  show "\<not> (spec_submission_failure c L w s \<and> spec_unconfirmed_retry c L w s)"
    using attempt_cost(3,4) [of c L w email secret s] by auto
  show "fst (attempt c L w email secret s) \<in> {RenderTimeout, PageException}
        \<longleftrightarrow> spec_render_failure c L w s"
    by (rule attempt_cost)
  show "fst (attempt c L w email secret s) = SubmitFailed \<longleftrightarrow> spec_submission_failure c L w s"
    by (rule attempt_cost)
  show "fst (attempt c L w email secret s) \<in> {UnconfirmedRetry, NoUrlRetry}
        \<longleftrightarrow> spec_unconfirmed_retry c L w s"
    by (rule attempt_cost)
  show "- 1 \<le> retries_left (snd (attempt c L w email secret s))" if "0 \<le> retries_left s"
    using that cost by simp
  show "attempt_loop (Suc k) c L W' email secret s = Finished s" if "retries_left s < 0"
    using that by simp
  show "min (- 1) (PER_QUESTION_RETRIES c)
        \<le> retries_left (snd (solve_and_submit_loop fuel c L W email secret start_url))"
    by (rule solve_retries) simp_all
  show "- 1 \<le> retries_left (snd (solve_and_submit_loop fuel c L W email secret start_url))"
    if "- 1 \<le> PER_QUESTION_RETRIES c"
    using that by (intro solve_retries) simp_all
qed

theorem C8_witness:
  "retries_left (initial_state default_cfg timeout_world ''https://x/q1'') = 2
   \<and> spec_render_failure default_cfg ref_lib timeout_attempt
        (initial_state default_cfg timeout_world ''https://x/q1'')
   \<and> retries_left (snd (attempt default_cfg ref_lib timeout_attempt ''me@example.org'' ''s3cret''
        (initial_state default_cfg timeout_world ''https://x/q1''))) = 1
   \<and> spec_submission_failure default_cfg ref_lib unavailable_attempt
        (initial_state default_cfg timeout_world ''https://x/q1'')
   \<and> retries_left (snd (attempt default_cfg ref_lib unavailable_attempt ''me@example.org''
        ''s3cret'' (initial_state default_cfg timeout_world ''https://x/q1''))) = 1
   \<and> spec_unconfirmed_retry default_cfg ref_lib rejected_attempt
        (initial_state default_cfg timeout_world ''https://x/q1'')
   \<and> retries_left (snd (attempt default_cfg ref_lib rejected_attempt ''me@example.org'' ''s3cret''
        (initial_state default_cfg timeout_world ''https://x/q1''))) = 1
   \<and> \<not> spec_render_failure default_cfg ref_lib slow_attempt
          (initial_state default_cfg timeout_world ''https://x/q1'')
   \<and> \<not> spec_submission_failure default_cfg ref_lib slow_attempt
          (initial_state default_cfg timeout_world ''https://x/q1'')
   \<and> \<not> spec_unconfirmed_retry default_cfg ref_lib slow_attempt
          (initial_state default_cfg timeout_world ''https://x/q1'')
   \<and> retries_left (snd (attempt default_cfg ref_lib slow_attempt ''me@example.org'' ''s3cret''
        (initial_state default_cfg timeout_world ''https://x/q1''))) = 2
   \<and> - 1 \<le> PER_QUESTION_RETRIES default_cfg
   \<and> - 1 \<le> retries_left (snd (solve_and_submit_loop 8 default_cfg ref_lib timeout_world
                                   ''me@example.org'' ''s3cret'' ''https://x/q1''))
   \<and> retries_left ((initial_state default_cfg timeout_world ''https://x/q1'')
        \<lparr>retries_left := - 1\<rparr>) < 0
   \<and> attempt_loop (Suc 0) default_cfg ref_lib (\<lambda>n. timeout_attempt) ''me@example.org'' ''s3cret''
        ((initial_state default_cfg timeout_world ''https://x/q1'')\<lparr>retries_left := - 1\<rparr>)
      = Finished ((initial_state default_cfg timeout_world ''https://x/q1'')\<lparr>retries_left := - 1\<rparr>)"
proof -
  let ?s = "initial_state default_cfg timeout_world ''https://x/q1''"
  have e: "evaluate_page ref_lib unavailable_attempt ''https://x/q1''
      = Inr (PDict [(''answer'', PInt 42)], Some ''https://x/Submit'', PInt 42, [])"
    "evaluate_page ref_lib rejected_attempt ''https://x/q1''
      = Inr (PDict [(''answer'', PInt 42)], Some ''https://x/Submit'', PInt 42, [])"
    "evaluate_page ref_lib slow_attempt ''https://x/q1''
      = Inr (PDict [(''answer'', PInt 42)], Some ''https://x/Submit'', PInt 42, [])"
    by (simp_all add: extract_defs ref_defs text_defs)
  have u: "current_url ?s = PStr ''https://x/q1''" "retries_left ?s = 2" "deadline ?s = 170"
    "now ?s = 0"
    by (simp_all add: initial_state_def default_cfg_def timeout_world_def)
  have p: "posts default_cfg ref_lib unavailable_attempt (PStr ''https://x/q1'')"
    "posts default_cfg ref_lib rejected_attempt (PStr ''https://x/q1'')"
    "posts default_cfg ref_lib slow_attempt (PStr ''https://x/q1'')"
    "rendered default_cfg ref_lib timeout_attempt (PStr ''https://x/q1'') = None"
    by (simp_all add: posts_def rendered_def e)
      (simp_all add: unavailable_attempt_def rejected_attempt_def slow_attempt_def
        timeout_attempt_def default_cfg_def)
  have j: "submit_answer_json ref_lib (post_result unavailable_attempt) = Inl RequestException"
    "submit_answer_json ref_lib (post_result rejected_attempt)
       = Inr (PDict [(''correct'', PBool False), (''url'', PStr ''https://x/q3'')])"
    "submit_answer_json ref_lib (post_result slow_attempt)
       = Inr (PDict [(''correct'', PBool True), (''url'', PStr ''https://x/q2'')])"
    by (simp_all add: submit_answer_json_def raise_for_status_def ref_defs)
  have t: "spec_render_failure default_cfg ref_lib timeout_attempt ?s"
    by (simp add: spec_render_failure_def u p)
  have f: "spec_submission_failure default_cfg ref_lib unavailable_attempt ?s"
    by (simp add: spec_submission_failure_def u p j)
  have r: "spec_unconfirmed_retry default_cfg ref_lib rejected_attempt ?s"
    by (simp add: spec_unconfirmed_retry_def u p j response_field_def dict_get_def)
      (simp add: rejected_attempt_def default_cfg_def)
  have n: "\<not> spec_unconfirmed_retry default_cfg ref_lib slow_attempt ?s"
    by (simp add: spec_unconfirmed_retry_def u p j response_field_def dict_get_def)
  note A = C8_retry_budget [of default_cfg ref_lib _ "''me@example.org''" "''s3cret''" _
      0 "\<lambda>n. timeout_attempt" 8 timeout_world "''https://x/q1''"]
  from A [of timeout_attempt ?s] t
  have 1: "retries_left (snd (attempt default_cfg ref_lib timeout_attempt ''me@example.org''
      ''s3cret'' ?s)) = 1"
    and b: "- 1 \<le> PER_QUESTION_RETRIES default_cfg \<longrightarrow>
      - 1 \<le> retries_left (snd (solve_and_submit_loop 8 default_cfg ref_lib timeout_world
                                   ''me@example.org'' ''s3cret'' ''https://x/q1''))"
    by (simp_all add: u)
  from A [of unavailable_attempt ?s] f
  have 2: "retries_left (snd (attempt default_cfg ref_lib unavailable_attempt ''me@example.org''
      ''s3cret'' ?s)) = 1"
    by (simp add: u)
  from A [of rejected_attempt ?s] r
  have 3: "retries_left (snd (attempt default_cfg ref_lib rejected_attempt ''me@example.org''
      ''s3cret'' ?s)) = 1"
    by (simp add: u)
  have rs: "rendered default_cfg ref_lib slow_attempt (PStr ''https://x/q1'')
      = Some (PDict [(''answer'', PInt 42)], Some ''https://x/Submit'', PInt 42, [])"
    by (simp add: rendered_def e) (simp add: slow_attempt_def default_cfg_def)
  have nr: "\<not> spec_render_failure default_cfg ref_lib slow_attempt ?s"
    by (simp add: spec_render_failure_def u rs p)
  have nf: "\<not> spec_submission_failure default_cfg ref_lib slow_attempt ?s"
    by (simp add: spec_submission_failure_def u p j)
  from A [of slow_attempt ?s] n nr nf
  have 4: "retries_left (snd (attempt default_cfg ref_lib slow_attempt ''me@example.org''
      ''s3cret'' ?s)) = 2"
    by (simp add: u)
  from A [of timeout_attempt "?s\<lparr>retries_left := - 1\<rparr>"]
  have 5: "attempt_loop (Suc 0) default_cfg ref_lib (\<lambda>n. timeout_attempt) ''me@example.org''
      ''s3cret'' (?s\<lparr>retries_left := - 1\<rparr>) = Finished (?s\<lparr>retries_left := - 1\<rparr>)"
    by simp
  have c: "- 1 \<le> PER_QUESTION_RETRIES default_cfg"
    by (simp add: default_cfg_def)
  from u t f r n nr nf 1 2 3 4 5 b c show ?thesis
    by simp
qed

text \<open>
  Claim C9, evaluated where it fails. In a world where every navigation ends in a
  Playwright timeout, the run with the default configuration makes six attempts before
  the deadline; each opens a page, none closes one (the two \<^verbatim>\<open>except\<close> clauses at the end of
  the attempt body do not call \<^verbatim>\<open>page.close()\<close>), and the run ends with six pages open. Two
  pages are open at once from the second attempt on.
\<close>

theorem C9_pages_leak_on_render_timeout:
  "open_pages (snd (solve_and_submit_loop 8 default_cfg ref_lib timeout_world
                      ''me@example.org'' ''s3cret'' ''https://x/q1'')) = 6
   \<and> ClosePage \<notin> set (trace (snd (solve_and_submit_loop 8 default_cfg ref_lib timeout_world
                      ''me@example.org'' ''s3cret'' ''https://x/q1'')))
   \<and> fst (solve_and_submit_loop 8 default_cfg ref_lib timeout_world
                      ''me@example.org'' ''s3cret'' ''https://x/q1'') = Completed
   \<and> open_pages (snd (attempt default_cfg ref_lib timeout_attempt ''me@example.org'' ''s3cret''
        (snd (attempt default_cfg ref_lib timeout_attempt ''me@example.org'' ''s3cret''
           (initial_state default_cfg timeout_world ''https://x/q1''))))) = 2"
  unfolding timeout_run
  by (simp add: timeout_attempt_def default_cfg_def timeout_world_def step_defs initial_state_def)

text \<open>
  Claim C10, counterexample. A \<^verbatim>\<open><pre>\<close> element whose text is the JSON document \<^verbatim>\<open>null\<close>
  parses at the first try, and the value returned is \<^verbatim>\<open>None\<close>: null is returned although
  the element exists and no parse has failed. And when the query for the element itself
  raises, the function raises: the two page queries are outside its \<^verbatim>\<open>try\<close> blocks.
\<close>

theorem C10_null_document_counterexample:
  "q_pre (quiz_page\<lparr>q_pre := Inr (Some (Inr ''null''))\<rparr>) = Inr (Some (Inr ''null''))
   \<and> json_loads ref_lib (py_strip ''null'') = Some PNone
   \<and> extract_json_from_pre ref_lib (quiz_page\<lparr>q_pre := Inr (Some (Inr ''null''))\<rparr>) = Inr PNone
   \<and> extract_json_from_pre ref_lib (quiz_page\<lparr>q_pre := Inl PWTimeoutError\<rparr>) = Inl PWTimeoutError"
  by (simp add: extract_json_from_pre_def ref_lib_def ref_json_def doc_answer_def quoted_def
      py_strip_def is_space_def)

text \<open>
  Claim C10, as amended. Without a \<^verbatim>\<open><pre>\<close> element the function returns \<^verbatim>\<open>None\<close>. With
  one whose text can be read, it never raises: it returns the value of the text, stripped
  of the whitespace at its two ends (\<^verbatim>\<open>str.strip\<close>), parsed as JSON; when that parse
  fails, the value of the base64-decoded stripped text parsed as JSON; and \<^verbatim>\<open>None\<close> when
  that fails too. So on such a page it returns \<^verbatim>\<open>None\<close> exactly
  when both parses fail or when the document that parses is itself \<^verbatim>\<open>null\<close>. It raises
  exactly when one of its two page queries raises, with that exception.
\<close>

theorem C10_extract_json_from_pre:
  "(q_pre page = Inr None \<longrightarrow> extract_json_from_pre L page = Inr PNone)
   \<and> (q_pre page = Inr (Some (Inr raw)) \<longrightarrow>
        (json_loads L (py_strip raw) = Some v \<longrightarrow> extract_json_from_pre L page = Inr v)
        \<and> (json_loads L (py_strip raw) = None
             \<and> b64decode_utf8 L (py_strip raw) = Some decoded
             \<and> json_loads L decoded = Some v
             \<longrightarrow> extract_json_from_pre L page = Inr v)
        \<and> (\<exists>r. extract_json_from_pre L page = Inr r)
        \<and> (extract_json_from_pre L page = Inr PNone \<longleftrightarrow>
             json_loads L (py_strip raw) = Some PNone
             \<or> json_loads L (py_strip raw) = None
               \<and> (case b64decode_utf8 L (py_strip raw) of
                     None \<Rightarrow> True
                   | Some d \<Rightarrow> json_loads L d = None \<or> json_loads L d = Some PNone)))
   \<and> (extract_json_from_pre L page = Inl e \<longleftrightarrow>
        q_pre page = Inl e \<or> q_pre page = Inr (Some (Inl e)))"
proof (intro conjI impI)
  show "extract_json_from_pre L page = Inr PNone" if "q_pre page = Inr None"
    using that by (simp add: extract_json_from_pre_def)
  show "extract_json_from_pre L page = Inr v"
    if "q_pre page = Inr (Some (Inr raw))" "json_loads L (py_strip raw) = Some v"
    using that by (simp add: extract_json_from_pre_def)
  show "extract_json_from_pre L page = Inr v"
    if "q_pre page = Inr (Some (Inr raw))"
      "json_loads L (py_strip raw) = None \<and> b64decode_utf8 L (py_strip raw) = Some decoded
         \<and> json_loads L decoded = Some v"
    using that by (simp add: extract_json_from_pre_def)
  show "\<exists>r. extract_json_from_pre L page = Inr r" if "q_pre page = Inr (Some (Inr raw))"
    using that by (simp add: extract_json_from_pre_def Let_def split: option.splits)
  show "extract_json_from_pre L page = Inr PNone \<longleftrightarrow>
             json_loads L (py_strip raw) = Some PNone
             \<or> json_loads L (py_strip raw) = None
               \<and> (case b64decode_utf8 L (py_strip raw) of
                     None \<Rightarrow> True
                   | Some d \<Rightarrow> json_loads L d = None \<or> json_loads L d = Some PNone)"
    if "q_pre page = Inr (Some (Inr raw))"
    using that by (simp add: extract_json_from_pre_def Let_def split: option.splits)
  show "extract_json_from_pre L page = Inl e \<longleftrightarrow>
        q_pre page = Inl e \<or> q_pre page = Inr (Some (Inl e))"
    by (simp add: extract_json_from_pre_def Let_def split: sum.splits option.splits)
qed

theorem C10_witness:
  "q_pre (quiz_page\<lparr>q_pre := Inr (Some (Inr ''bnVsbA==''))\<rparr>) = Inr (Some (Inr ''bnVsbA==''))
   \<and> json_loads ref_lib (py_strip ''bnVsbA=='') = None
   \<and> b64decode_utf8 ref_lib (py_strip ''bnVsbA=='') = Some ''null''
   \<and> json_loads ref_lib ''null'' = Some PNone
   \<and> extract_json_from_pre ref_lib (quiz_page\<lparr>q_pre := Inr (Some (Inr ''bnVsbA==''))\<rparr>) = Inr PNone
   \<and> q_pre quiz_page = Inr (Some (Inr ([CHR 0xA0, CHR '' ''] @ doc_answer @ [CHR 0x0A])))
   \<and> json_loads ref_lib (py_strip ([CHR 0xA0, CHR '' ''] @ doc_answer @ [CHR 0x0A]))
        = Some (PDict [(''answer'', PInt 42)])
   \<and> extract_json_from_pre ref_lib quiz_page = Inr (PDict [(''answer'', PInt 42)])
   \<and> q_pre (quiz_page\<lparr>q_pre := Inr None\<rparr>) = Inr None
   \<and> extract_json_from_pre ref_lib (quiz_page\<lparr>q_pre := Inr None\<rparr>) = Inr PNone"
proof -
  let ?p = "quiz_page\<lparr>q_pre := Inr (Some (Inr ''bnVsbA==''))\<rparr>"
  have q: "q_pre ?p = Inr (Some (Inr ''bnVsbA==''))"
    by simp
  have s: "py_strip ''bnVsbA=='' = ''bnVsbA==''"
    by (simp add: py_strip_def is_space_def)
  have a: "json_loads ref_lib ''bnVsbA=='' = None"
    by (simp add: ref_lib_def ref_json_def doc_answer_def resp_right_def resp_wrong_def quoted_def)
  have b: "b64decode_utf8 ref_lib ''bnVsbA=='' = Some ''null''"
    by (simp add: ref_lib_def)
  have c: "json_loads ref_lib ''null'' = Some PNone"
    by (simp add: ref_lib_def ref_json_def doc_answer_def quoted_def)
  have q1: "q_pre quiz_page = Inr (Some (Inr ([CHR 0xA0, CHR '' ''] @ doc_answer @ [CHR 0x0A])))"
    by (simp add: quiz_page_def)
  have d: "json_loads ref_lib (py_strip ([CHR 0xA0, CHR '' ''] @ doc_answer @ [CHR 0x0A]))
             = Some (PDict [(''answer'', PInt 42)])"
    by (simp add: ref_lib_def ref_json_def doc_answer_def quoted_def py_strip_def is_space_def)
  have n: "q_pre (quiz_page\<lparr>q_pre := Inr None\<rparr>) = Inr None"
    by simp
  from C10_extract_json_from_pre [of ?p ref_lib "''bnVsbA==''" _ "''null''"] q s a b c
  have 1: "extract_json_from_pre ref_lib ?p = Inr PNone"
    by simp
  from C10_extract_json_from_pre [of quiz_page ref_lib "[CHR 0xA0, CHR '' ''] @ doc_answer @ [CHR 0x0A]"
      "PDict [(''answer'', PInt 42)]"] q1 d
  have 2: "extract_json_from_pre ref_lib quiz_page = Inr (PDict [(''answer'', PInt 42)])"
    by blast
  from C10_extract_json_from_pre [of "quiz_page\<lparr>q_pre := Inr None\<rparr>" ref_lib] n
  have 3: "extract_json_from_pre ref_lib (quiz_page\<lparr>q_pre := Inr None\<rparr>) = Inr PNone"
    by blast
  from q s a b c q1 d n 1 2 3 show ?thesis
    by simp
qed

end
